theory Spec2Isabelle
  imports Main "HOL-Library.Word"
begin

section \<open>Coordinate iteration (LLVMContext.cpp, anonymous namespace)\<close>

text \<open>
  The components of a coordinate and of an active size are C++ \<^verbatim>\<open>int\<close>s: 32-bit words, read
  as signed numbers by \<open>sint\<close>; \<open>+\<close> wraps around, as \<^verbatim>\<open>++\<close> does in the compiled code at the
  largest \<^verbatim>\<open>int\<close>.
\<close>

type_synonym int32 = "32 word"

text \<open>
  \<^verbatim>\<open>IncrementMemoryCoordinateImpl(dimension, coordinate, maxCoordinate)\<close>.
  The C++ mutates the vector \<open>coordinate\<close> in place and returns a flag; the model returns
  the flag together with the updated vector. Indexing a \<open>std::vector\<close> out of range is
  undefined behaviour: the model returns \<open>None\<close> there. \<open>dimension\<close> runs from the last index
  down to \<open>-1\<close>.
\<close>

function IncrementMemoryCoordinateImpl ::
  "int \<Rightarrow> int32 list \<Rightarrow> int32 list \<Rightarrow> (bool \<times> int32 list) option" where
  "IncrementMemoryCoordinateImpl dimension coordinate maxCoordinate =
     (if dimension < 0 then Some (False, coordinate)
      else if length coordinate \<le> nat dimension \<or> length maxCoordinate \<le> nat dimension
        then None
      else
        (let incremented = coordinate[nat dimension := coordinate ! nat dimension + 1]
         in if sint (incremented ! nat dimension) \<ge> sint (maxCoordinate ! nat dimension)
            then IncrementMemoryCoordinateImpl (dimension - 1)
                   (incremented[nat dimension := 0]) maxCoordinate
            else Some (True, incremented)))"
  by pat_completeness auto
termination
  by (relation "measure (\<lambda>(dimension, coordinate, maxCoordinate). nat (dimension + 1))") auto

declare IncrementMemoryCoordinateImpl.simps [simp del]

text \<open>
  \<^verbatim>\<open>IncrementMemoryCoordinate(coordinate, maxCoordinate)\<close>: the assertion that both vectors
  have the same size is a failure (\<open>None\<close>) of the model.
\<close>

definition IncrementMemoryCoordinate ::
  "int32 list \<Rightarrow> int32 list \<Rightarrow> (bool \<times> int32 list) option" where
  "IncrementMemoryCoordinate coordinate maxCoordinate =
     (if length coordinate \<noteq> length maxCoordinate then None
      else IncrementMemoryCoordinateImpl (int (length maxCoordinate) - 1)
             coordinate maxCoordinate)"

subsection \<open>The odometer, by structural recursion (used to reason about the source's recursion)\<close>

fun odometer :: "int32 list \<Rightarrow> int32 list \<Rightarrow> bool \<times> int32 list" where
  "odometer (x # c) (d # ds) =
     (case odometer c ds of
        (True, c') \<Rightarrow> (True, x # c')
      | (False, c') \<Rightarrow>
          if sint (x + 1) \<ge> sint d then (False, 0 # c') else (True, (x + 1) # c'))"
| "odometer c ds = (False, [])"

fun weight :: "int32 list \<Rightarrow> nat" where
  "weight [] = 1"
| "weight (d # ds) = nat (max (sint d) 1) * weight ds"

definition digitRemaining :: "int32 \<Rightarrow> int32 \<Rightarrow> nat" where
  "digitRemaining x d = (if sint (x + 1) \<ge> sint d then 0 else nat (sint d - sint (x + 1)))"

fun remaining :: "int32 list \<Rightarrow> int32 list \<Rightarrow> nat" where
  "remaining (x # c) (d # ds) = digitRemaining x d * weight ds + remaining c ds"
| "remaining c ds = 0"

lemma sint_bounds32: "- 2147483648 \<le> sint (x :: int32)" "sint (x :: int32) \<le> 2147483647"
  using sint_ge [of x] sint_lt [of x] by simp_all

lemma sint_succ:
  assumes "sint (y :: int32) < 2147483647"
  shows "sint (y + 1) = sint y + 1"
proof -
  have "sint (y + 1) = signed_take_bit 31 (sint y + 1)"
    by (simp add: sint_word_ariths)
  also have "\<dots> = sint y + 1"
    using assms sint_bounds32 [of y] by (intro signed_take_bit_int_eq_self) simp_all
  finally show ?thesis .
qed

lemma odometer_length:
  "length c = length ds \<Longrightarrow> length (snd (odometer c ds)) = length c"
  by (induction c ds rule: list_induct2) (auto split: prod.splits bool.splits)

lemma odometer_False_zero:
  "length c = length ds \<Longrightarrow> odometer c ds = (False, c') \<Longrightarrow> c' = replicate (length c) 0"
  by (induction c ds arbitrary: c' rule: list_induct2)
     (auto split: prod.splits bool.splits if_splits)

lemma odometer_snoc:
  "length q = length mq \<Longrightarrow>
   odometer (q @ [x]) (mq @ [M]) =
     (if sint (x + 1) \<ge> sint M then (case odometer q mq of (b, q') \<Rightarrow> (b, q' @ [0]))
      else (True, q @ [x + 1]))"
  by (induction q mq rule: list_induct2) (auto split: prod.splits bool.splits)

lemma Impl_odometer:
  "length p = length mp \<Longrightarrow>
   IncrementMemoryCoordinateImpl (int (length p) - 1) (p @ s) (mp @ ms) =
     Some (case odometer p mp of (b, p') \<Rightarrow> (b, p' @ s))"
proof (induction p arbitrary: mp s ms rule: rev_induct)
  case Nil
  then show ?case by (simp add: IncrementMemoryCoordinateImpl.simps)
next
  case (snoc x q)
  from snoc.prems obtain mq M where mp: "mp = mq @ [M]" and len: "length q = length mq"
    by (cases mp rule: rev_cases) auto
  have ih: "IncrementMemoryCoordinateImpl (int (length q) - 1) (q @ 0 # s) (mq @ M # ms) =
      Some (case odometer q mq of (b, q') \<Rightarrow> (b, q' @ 0 # s))"
    using snoc.IH [OF len, of "0 # s" "M # ms"] by simp
  show ?case
    unfolding mp
    apply (subst IncrementMemoryCoordinateImpl.simps)
    apply (simp add: len [symmetric] odometer_snoc [OF len] nth_append Let_def ih
        split: prod.splits)
    done
qed

lemma IncrementMemoryCoordinate_odometer:
  "length c = length m \<Longrightarrow> IncrementMemoryCoordinate c m = Some (odometer c m)"
  using Impl_odometer [of c m "[]" "[]"]
  by (simp add: IncrementMemoryCoordinate_def split: prod.splits)

lemma digitRemaining_zero: "Suc (digitRemaining 0 d) = nat (max (sint d) 1)"
  by (auto simp: digitRemaining_def)

lemma remaining_zero: "Suc (remaining (replicate (length ds) 0) ds) = weight ds"
proof (induction ds)
  case Nil
  show ?case by simp
next
  case (Cons d ds)
  have "nat (max (sint d) 1) * weight ds = digitRemaining 0 d * weight ds + weight ds"
    using digitRemaining_zero [of d, symmetric] by simp
  with Cons show ?case by simp
qed

lemma digitRemaining_step:
  assumes "\<not> sint (x + 1) \<ge> sint d"
  shows "digitRemaining x d = Suc (digitRemaining (x + 1) d)"
proof -
  from assms sint_bounds32 [of d] have "sint (x + 1) < 2147483647" by simp
  from sint_succ [OF this] assms show ?thesis
    by (auto simp: digitRemaining_def)
qed

lemma odometer_decreases:
  "length c = length ds \<Longrightarrow> odometer c ds = (True, c') \<Longrightarrow>
   remaining c' ds < remaining c ds"
proof (induction c ds arbitrary: c' rule: list_induct2)
  case Nil
  then show ?case by simp
next
  case (Cons x c d ds)
  show ?case
  proof (cases "odometer c ds")
    case (Pair b t)
    show ?thesis
    proof (cases b)
      case True
      with Pair Cons.prems have "c' = x # t" by simp
      with Cons.IH [of t] Pair True show ?thesis by simp
    next
      case False
      with Pair Cons.prems have lt: "\<not> sint (x + 1) \<ge> sint d" and c': "c' = (x + 1) # t"
        by (auto split: if_splits)
      from Cons have len: "length c = length ds" by simp
      from odometer_False_zero [OF len, of t] Pair False
      have t: "t = replicate (length ds) 0" by (simp add: len)
      have "digitRemaining x d * weight ds =
          digitRemaining (x + 1) d * weight ds + weight ds"
        by (simp add: digitRemaining_step [OF lt])
      moreover have "remaining t ds < weight ds"
        using remaining_zero [of ds] t by simp
      ultimately show ?thesis using c' by simp
    qed
  qed
qed

lemma IncrementMemoryCoordinate_decreases:
  assumes "IncrementMemoryCoordinate c m = Some (True, c')"
  shows "remaining c' m < remaining c m"
proof -
  from assms have len: "length c = length m"
    by (auto simp: IncrementMemoryCoordinate_def split: if_splits)
  with assms have "odometer c m = (True, c')"
    by (simp add: IncrementMemoryCoordinate_odometer)
  from odometer_decreases [OF len this] show ?thesis .
qed

text \<open>
  The loop \<^verbatim>\<open>do { visit(coordinate); } while (IncrementMemoryCoordinate(coordinate, maxCoordinate));\<close>
  shared by the per-element operations: the list of coordinates visited, in order.
\<close>

function (sequential) ForLoop :: "int32 list \<Rightarrow> int32 list \<Rightarrow> int32 list list" where
  "ForLoop coordinate maxCoordinate =
     coordinate #
       (case IncrementMemoryCoordinate coordinate maxCoordinate of
          Some (True, coordinate') \<Rightarrow> ForLoop coordinate' maxCoordinate
        | _ \<Rightarrow> [])"
  by pat_completeness auto
termination
  apply (relation "measure (\<lambda>(coordinate, maxCoordinate). remaining coordinate maxCoordinate)")
   apply simp
  apply (auto simp: IncrementMemoryCoordinate_decreases)
  done

declare ForLoop.simps [simp del]

text \<open>
  \<^verbatim>\<open>decltype(maxCoordinate) coordinate(maxCoordinate.size());\<close> starts the loop at the
  all-zero coordinate.
\<close>

definition coordinates :: "int32 list \<Rightarrow> int32 list list" where
  "coordinates maxCoordinate = ForLoop (replicate (length maxCoordinate) 0) maxCoordinate"

section \<open>Data model\<close>

subsection \<open>Errors\<close>

text \<open>
  The exceptions thrown by the source are values of the model. \<open>UndefinedBehaviour\<close> stands
  for what C++ leaves undefined or aborts on (\<^verbatim>\<open>top()\<close> of an empty \<^verbatim>\<open>std::stack\<close>, a failed
  \<^verbatim>\<open>assert\<close>, \<^verbatim>\<open>std::get\<close> of the wrong variant alternative, a read outside a buffer).
\<close>

datatype InputExceptionErrors = invalidArgument | invalidSize | typeMismatch | sizeMismatch

datatype LogicExceptionErrors = illegalState | notImplemented

datatype error =
    InputException InputExceptionErrors
  | LogicException LogicExceptionErrors
  | UndefinedBehaviour

subsection \<open>Types\<close>

datatype ValueType =
  Boolean | Byte | Char8 | Int16 | Int32 | Int64 | Float | Double | Void | Undefined

type_synonym ValueTypeDescription = "ValueType \<times> int"

datatype VariableType =
    VarVoid | VarBoolean | VarFloat | VarDouble
  | BytePointer | Char8Pointer | Int16Pointer | Int32Pointer | Int64Pointer
  | FloatPointer | DoublePointer

datatype TypedOperator =
    add | addFloat | subtract | subtractFloat | multiply | multiplyFloat
  | divideSigned | divideFloat | moduloSigned

datatype TypedComparison =
    none
  | equals | equalsFloat | notEquals | notEqualsFloat
  | greaterThan | greaterThanFloat | greaterThanOrEquals | greaterThanOrEqualsFloat
  | lessThan | lessThanFloat | lessThanOrEquals | lessThanOrEqualsFloat

datatype ValueBinaryOperation = add_op | subtract_op | multiply_op | divide_op | modulus_op

datatype ValueLogicalOperation =
  equality | inequality | greaterthan | greaterthanorequal | lessthan | lessthanorequal

datatype GlobalAllocationScope = Global | Function

subsection \<open>What the backend emits\<close>

text \<open>
  Modelled from the spec: the native code emission library (\<^verbatim>\<open>IRModuleEmitter\<close>,
  \<^verbatim>\<open>IRFunctionEmitter\<close>, \<^verbatim>\<open>IREmitter\<close>, \<^verbatim>\<open>IRRuntime\<close>) is an external collaborator, "an opaque
  backend that turns typed scalar operations and literals into instructions". An
  \<^verbatim>\<open>LLVMValue\<close> is modelled as the term that the emitter calls of the source build, one
  constructor per emitter call; the element type \<open>'v\<close> of constant data is a parameter.
  \<open>RuntimeFunction name t\<close> is the function that \<^verbatim>\<open>IRRuntime::Get<name>Function(t)\<close> returns.
\<close>

datatype Callee = RuntimeFunction string VariableType | NamedFunction string

datatype 'v LLVMValue =
    GlobalVariable string
  | Variable nat
  | Argument nat
  | Literal 'v
  | LiteralInt int
  | LiteralBool bool
  | TrueBit
  | PointerOffset "'v LLVMValue" "'v LLVMValue"
  | ValueAt "'v LLVMValue" "'v LLVMValue"
  | Load "'v LLVMValue"
  | CastValue ValueType "'v LLVMValue"
  | Operator TypedOperator "'v LLVMValue" "'v LLVMValue"
  | Comparison TypedComparison "'v LLVMValue" "'v LLVMValue"
  | LogicalAnd "'v LLVMValue" "'v LLVMValue"
  | Select "'v LLVMValue" "'v LLVMValue" "'v LLVMValue"
  | Call Callee "'v LLVMValue list"

text \<open>
  The emitter calls that write: what is appended to the module, in order. The byte counts
  of \<^verbatim>\<open>MemorySet\<close> and \<^verbatim>\<open>MemoryCopy\<close> are kept as element counts.
\<close>

datatype 'v Instr =
    Store "'v LLVMValue" "'v LLVMValue"
  | SetValueAt "'v LLVMValue" "'v LLVMValue" "'v LLVMValue"
  | MemoryCopy "'v LLVMValue" "'v LLVMValue" nat
  | MemorySet "'v LLVMValue" nat
  | GlobalArrayData string ValueType "'v list"
  | GlobalArrayType string ValueType nat
  | BeginFunction string VariableType "VariableType list"
  | SetAttributeForArguments
  | EndFunction "'v LLVMValue option"
  | DeclareFunction string

subsection \<open>Value\<close>

text \<open>
  Modelled from the spec: \<^verbatim>\<open>Value.h\<close> is not among the sources. A Value has a base type with
  a pointer level, an optional layout (a Value without one is unconstrained) and the
  underlying-data variant: undefined, an emittable handle, or a pointer into a constant
  buffer. The pointer \<^verbatim>\<open>T*\<close> into a buffer is the element type \<open>T\<close>, the identity (address)
  of the buffer it points into and the offset from the buffer's start. The accessors
  \<^verbatim>\<open>GetBaseType\<close>, \<^verbatim>\<open>PointerLevel\<close>, \<^verbatim>\<open>IsConstrained\<close>, \<^verbatim>\<open>IsConstant\<close> and \<^verbatim>\<open>SetData\<close> read and write
  these fields.
\<close>

datatype 'v UnderlyingData =
    UndefinedData
  | Emittable "'v LLVMValue"
  | ConstantPointer ValueType nat int

record ('v, 'l) Value =
  underlyingData :: "'v UnderlyingData"
  valueType :: ValueTypeDescription
  layout :: "'l option"

definition GetBaseType :: "('v, 'l) Value \<Rightarrow> ValueType" where
  "GetBaseType v = fst (valueType v)"

definition PointerLevel :: "('v, 'l) Value \<Rightarrow> int" where
  "PointerLevel v = snd (valueType v)"

definition IsConstrained :: "('v, 'l) Value \<Rightarrow> bool" where
  "IsConstrained v = (layout v \<noteq> None)"

definition IsConstant :: "('v, 'l) Value \<Rightarrow> bool" where
  "IsConstant v = (case underlyingData v of ConstantPointer t a off \<Rightarrow> True | _ \<Rightarrow> False)"

text \<open>
  Modelled from the spec: \<^verbatim>\<open>IsDefined\<close>. \<^verbatim>\<open>BinaryOperationImpl\<close> tests \<^verbatim>\<open>source.IsDefined()\<close>
  and afterwards still handles the undefined alternative of the data variant, so being
  defined is a property of the type tag: the base type is not \<open>Undefined\<close>.
\<close>

definition IsDefined :: "('v, 'l) Value \<Rightarrow> bool" where
  "IsDefined v = (GetBaseType v \<noteq> Undefined)"

text \<open>
  Modelled from the spec: a Value is "mutated in place only through \<^verbatim>\<open>SetData\<close>/\<^verbatim>\<open>Reset\<close>
  (reassigning the underlying-data variant, never resizing the layout)", and a move
  "only forgets the handle". \<^verbatim>\<open>Reset\<close> reassigns the data to the undefined alternative; the
  type and the layout stay.
\<close>

definition Reset :: "('v, 'l) Value \<Rightarrow> ('v, 'l) Value" where
  "Reset v = v\<lparr>underlyingData := UndefinedData\<rparr>"

definition SetData :: "('v, 'l) Value \<Rightarrow> 'v UnderlyingData \<Rightarrow> ('v, 'l) Value" where
  "SetData v d = v\<lparr>underlyingData := d\<rparr>"

text \<open>
  \<^verbatim>\<open>LLVMContext::TypeCompatible\<close>.
\<close>

definition TypeCompatible :: "('v, 'l) Value \<Rightarrow> ('v, 'l) Value \<Rightarrow> bool" where
  "TypeCompatible value1 value2 = (GetBaseType value1 = GetBaseType value2)"

subsection \<open>FunctionDeclaration\<close>

text \<open>
  Modelled from the spec: \<^verbatim>\<open>FunctionDeclaration.h\<close> is not among the sources. The source
  reads the parameter types and the return type of a declaration as Values (it copies
  them and sets the data of the copies), so the record holds Values.
\<close>

record ('v, 'l) FunctionDeclaration =
  GetFunctionName :: string
  GetParameterTypes :: "('v, 'l) Value list"
  GetReturnType :: "('v, 'l) Value option"

text \<open>
  Modelled from the spec: a declaration is an "immutable key composed of {function name,
  ordered parameter TypeDescriptions, optional return TypeDescription}. Two declarations
  are equal iff all three match." Equality of declarations (\<^verbatim>\<open>operator==\<close>, and the hash of
  the defined-function map) is equality of this key; the layouts and the data of the
  parameter Values take no part in it.
\<close>

type_synonym DeclarationKey =
  "string \<times> ValueTypeDescription list \<times> ValueTypeDescription option"

definition declarationKey :: "('v, 'l) FunctionDeclaration \<Rightarrow> DeclarationKey" where
  "declarationKey decl =
     (GetFunctionName decl, map valueType (GetParameterTypes decl),
      map_option valueType (GetReturnType decl))"

text \<open>
  The callable that \<^verbatim>\<open>CreateFunctionImpl\<close> builds is a closure over the context and the
  declaration: it is represented by the declaration it captured.
\<close>

datatype ('v, 'l) DefinedFunction = DefinedFunction "('v, 'l) FunctionDeclaration"

text \<open>
  Modelled from the spec: the "fixed set of built-in intrinsic declarations (abs, sin, cos,
  exp, log, sqrt, tanh, pow, max, min)"; the source names them \<^verbatim>\<open>AbsFunctionDeclaration\<close>,
  \<^verbatim>\<open>CosFunctionDeclaration\<close> and so on.
\<close>

datatype Intrinsic =
    AbsFunction | CosFunction | ExpFunction | LogFunction | MaxNumFunction
  | MinNumFunction | PowFunction | SinFunction | SqrtFunction | TanhFunction

definition intrinsics :: "Intrinsic list" where
  "intrinsics =
     [AbsFunction, CosFunction, ExpFunction, LogFunction, MaxNumFunction,
      MinNumFunction, PowFunction, SinFunction, SqrtFunction, TanhFunction]"

subsection \<open>External collaborators\<close>

text \<open>
  Modelled from the spec: \<^verbatim>\<open>MemoryLayout\<close> is "consumed as an opaque service that, given a
  coordinate, returns a physical offset and, given an active size, produces the set of
  iterable coordinates". The layout type \<open>'l\<close> and its operations are parameters, together
  with the two floating-point predicates of \<^verbatim>\<open>Value\<close>, the type that LLVM reports for an
  emitted value, the declaration of each built-in intrinsic, the element that stores a
  boolean in a constant buffer, and the operations of the interpreting backend
  (\<^verbatim>\<open>ComputeContext\<close>) that the source delegates to; none of them is defined in the sources.
\<close>

record ('v, 'l) Ext =
  GetActiveSize :: "'l \<Rightarrow> int32 list"
  GetLogicalCoordinates :: "'l \<Rightarrow> int32 list \<Rightarrow> int32 list"
  GetLogicalEntryOffset :: "'l \<Rightarrow> int32 list \<Rightarrow> int"
  GetEntryOffset :: "'l \<Rightarrow> int32 list \<Rightarrow> int"
  IsContiguous :: "'l \<Rightarrow> bool"
  GetMemorySize :: "'l \<Rightarrow> nat"
  NumElements :: "'l \<Rightarrow> nat"
  ScalarLayout :: "'l"
  IsFloatingPoint :: "('v, 'l) Value \<Rightarrow> bool"
  IsFloatingPointPointer :: "('v, 'l) Value \<Rightarrow> bool"
  GetType :: "'v LLVMValue \<Rightarrow> ValueTypeDescription"
  IntrinsicDeclaration :: "Intrinsic \<Rightarrow> ('v, 'l) FunctionDeclaration"
  booleanElement :: "bool \<Rightarrow> 'v"
  computeCopyData :: "('v, 'l) Value \<Rightarrow> ('v, 'l) Value \<Rightarrow> error + ('v, 'l) Value"
  computeBinaryOperation ::
    "ValueBinaryOperation \<Rightarrow> ('v, 'l) Value \<Rightarrow> ('v, 'l) Value \<Rightarrow> error + ('v, 'l) Value"
  computeOffset :: "('v, 'l) Value \<Rightarrow> ('v, 'l) Value \<Rightarrow> error + ('v, 'l) Value"
  computeCast :: "('v, 'l) Value \<Rightarrow> ValueType \<Rightarrow> error + ('v, 'l) Value"
  computeCall ::
    "('v, 'l) FunctionDeclaration \<Rightarrow> ('v, 'l) Value list \<Rightarrow> error + ('v, 'l) Value option"

text \<open>
  Modelled from the spec: \<^verbatim>\<open>GetIntrinsics()\<close> is not among the sources; it returns the
  declarations of the built-in intrinsics.
\<close>

definition GetIntrinsics :: "('v, 'l) Ext \<Rightarrow> ('v, 'l) FunctionDeclaration list" where
  "GetIntrinsics X = map (IntrinsicDeclaration X) intrinsics"

text \<open>
  \<^verbatim>\<open>std::find(intrinsics.begin(), intrinsics.end(), decl) != intrinsics.end()\<close>, with the
  equality of declarations.
\<close>

definition IsIntrinsic :: "('v, 'l) Ext \<Rightarrow> ('v, 'l) FunctionDeclaration \<Rightarrow> bool" where
  "IsIntrinsic X decl = (declarationKey decl \<in> set (map declarationKey (GetIntrinsics X)))"

text \<open>
  Modelled from the spec: \<^verbatim>\<open>IsEmpty\<close>, "layout has zero elements".
\<close>

definition IsEmpty :: "('v, 'l) Ext \<Rightarrow> ('v, 'l) Value \<Rightarrow> bool" where
  "IsEmpty X v = (case layout v of None \<Rightarrow> False | Some l \<Rightarrow> NumElements X l = 0)"

text \<open>
  \<^verbatim>\<open>value.GetLayout()\<close>; the layout of an unconstrained Value does not exist.
\<close>

definition GetLayout :: "('v, 'l) Value \<Rightarrow> error + 'l" where
  "GetLayout v = (case layout v of None \<Rightarrow> Inl UndefinedBehaviour | Some l \<Rightarrow> Inr l)"

text \<open>
  The constructor \<^verbatim>\<open>Value(Emittable, layout)\<close>: the type is the one the context's
  \<^verbatim>\<open>GetType\<close> reports for the handle.
\<close>

definition EmittableValue :: "('v, 'l) Ext \<Rightarrow> 'v LLVMValue \<Rightarrow> 'l \<Rightarrow> ('v, 'l) Value" where
  "EmittableValue X e l = \<lparr>underlyingData = Emittable e, valueType = GetType X e, layout = Some l\<rparr>"

subsection \<open>The context\<close>

text \<open>
  The state of an \<^verbatim>\<open>LLVMContext\<close>: the module name of its emitter, the stack of functions being
  emitted (each \<^verbatim>\<open>IRFunctionEmitter\<close> is represented by its function name; the top is the
  head), the stack of promoted-constant records (each record pairs the address of a
  constant buffer with the storage it was copied to), the global registry, the
  defined-function cache (keyed by declaration, that is by the declaration's key), the
  constant buffers owned by the interpreting backend (by address) and the address of
  the next buffer it creates, the number of function-local variables created so far, and
  what has been emitted.
\<close>

record ('v, 'l) LLVMContext =
  moduleName :: string
  functionStack :: "string list"
  promotedConstantStack :: "(nat \<times> 'v LLVMValue) list list"
  globals :: "string \<rightharpoonup> ('v LLVMValue \<times> 'l)"
  definedFunctions :: "DeclarationKey \<rightharpoonup> ('v, 'l) DefinedFunction"
  constantData :: "nat \<rightharpoonup> (ValueType \<times> 'v list)"
  nextConstant :: nat
  nextVariable :: nat
  emitted :: "'v Instr list"

text \<open>
  A call returns either an exception together with the state it leaves behind, or a
  result with the new state.
\<close>

type_synonym ('a, 'v, 'l) result = "(error \<times> ('v, 'l) LLVMContext) + ('a \<times> ('v, 'l) LLVMContext)"

section \<open>Operations of LLVMContext\<close>

subsection \<open>ForImpl\<close>

text \<open>
  \<^verbatim>\<open>LLVMContext::ForImpl(layout, fn)\<close>: \<open>fn\<close> is called on the logical coordinates of each
  coordinate of the loop, in the loop's order; its effect is a change of some state \<open>'s\<close>.
\<close>

definition ForImpl ::
  "('v, 'l) Ext \<Rightarrow> 'l \<Rightarrow> (int32 list \<Rightarrow> 's \<Rightarrow> 's) \<Rightarrow> 's \<Rightarrow> 's" where
  "ForImpl X l fn s =
     (let maxCoordinate = GetActiveSize X l
      in foldl (\<lambda>s coordinate. fn (GetLogicalCoordinates X l coordinate) s) s
           (coordinates maxCoordinate))"

subsection \<open>Scoped names and global allocation\<close>

definition GetGlobalScopedName :: "('v, 'l) LLVMContext \<Rightarrow> string \<Rightarrow> string" where
  "GetGlobalScopedName s name = moduleName s @ ''_'' @ name"

text \<open>
  \<^verbatim>\<open>GetFunctionEmitter()\<close> is \<^verbatim>\<open>_functionStack.top().get()\<close>: undefined on an empty stack.
\<close>

definition GetFunctionEmitter :: "('v, 'l) LLVMContext \<Rightarrow> error + string" where
  "GetFunctionEmitter s =
     (case functionStack s of [] \<Rightarrow> Inl UndefinedBehaviour | f # fs \<Rightarrow> Inr f)"

definition GetCurrentFunctionScopedName ::
  "('v, 'l) LLVMContext \<Rightarrow> string \<Rightarrow> error + string" where
  "GetCurrentFunctionScopedName s name =
     (case functionStack s of
        [] \<Rightarrow> Inl (LogicException illegalState)
      | f # fs \<Rightarrow> Inr (GetGlobalScopedName s (f @ ''_'' @ name)))"

definition GetScopeAdjustedName ::
  "('v, 'l) LLVMContext \<Rightarrow> GlobalAllocationScope \<Rightarrow> string \<Rightarrow> error + string" where
  "GetScopeAdjustedName s scope name =
     (case scope of
        Global \<Rightarrow> Inr (GetGlobalScopedName s name)
      | Function \<Rightarrow> GetCurrentFunctionScopedName s name)"

text \<open>
  \<^verbatim>\<open>GlobalAllocateImpl(scope, name, data, layout)\<close>. The constant data is a vector of one of
  the scalar types: its element type and its elements. A vector of booleans is stored as
  a vector of \<^verbatim>\<open>char\<close>.
\<close>

definition GlobalAllocateImpl_data ::
  "('v, 'l) Ext \<Rightarrow> ('v, 'l) LLVMContext \<Rightarrow> GlobalAllocationScope \<Rightarrow> string \<Rightarrow>
   ValueType \<times> 'v list \<Rightarrow> 'l \<Rightarrow> (('v, 'l) Value, 'v, 'l) result" where
  "GlobalAllocateImpl_data X s scope name data l =
     (case GetScopeAdjustedName s scope name of
        Inl e \<Rightarrow> Inl (e, s)
      | Inr adjustedName \<Rightarrow>
          if globals s adjustedName \<noteq> None
          then Inl (InputException invalidArgument, s)
          else
            (let global = GlobalVariable adjustedName;
                 stored = (if fst data = Boolean then Char8 else fst data);
                 dereferencedGlobal = PointerOffset global (LiteralInt 0);
                 s' = s\<lparr>emitted := emitted s @ [GlobalArrayData adjustedName stored (snd data)],
                        globals := (globals s)(adjustedName \<mapsto> (dereferencedGlobal, l))\<rparr>
             in Inr (EmittableValue X dereferencedGlobal l, s')))"

text \<open>
  \<^verbatim>\<open>ValueTypeToLLVMType(emitter, { type, 0 })\<close> throws for the undefined type; the model keeps
  only that check, the LLVM type itself is named by the value type.
\<close>

definition ValueTypeToLLVMType :: "ValueTypeDescription \<Rightarrow> error + ValueTypeDescription" where
  "ValueTypeToLLVMType typeDescription =
     (if fst typeDescription = Undefined then Inl (LogicException illegalState)
      else Inr typeDescription)"

text \<open>
  \<^verbatim>\<open>GlobalAllocateImpl(scope, name, type, layout)\<close>.
\<close>

definition GlobalAllocateImpl_type ::
  "('v, 'l) Ext \<Rightarrow> ('v, 'l) LLVMContext \<Rightarrow> GlobalAllocationScope \<Rightarrow> string \<Rightarrow>
   ValueType \<Rightarrow> 'l \<Rightarrow> (('v, 'l) Value, 'v, 'l) result" where
  "GlobalAllocateImpl_type X s scope name type l =
     (case GetScopeAdjustedName s scope name of
        Inl e \<Rightarrow> Inl (e, s)
      | Inr adjustedName \<Rightarrow>
          if globals s adjustedName \<noteq> None
          then Inl (InputException invalidArgument, s)
          else
            (case ValueTypeToLLVMType (type, 0) of
               Inl e \<Rightarrow> Inl (e, s)
             | Inr llvmType \<Rightarrow>
                 (let global = GlobalVariable adjustedName;
                      dereferencedGlobal = PointerOffset global (LiteralInt 0);
                      s' = s\<lparr>emitted := emitted s @
                                 [GlobalArrayType adjustedName type (GetMemorySize X l)],
                             globals := (globals s)(adjustedName \<mapsto> (dereferencedGlobal, l))\<rparr>
                  in Inr (EmittableValue X dereferencedGlobal l, s'))))"

text \<open>
  \<^verbatim>\<open>LLVMContext::GetGlobalValue\<close>.
\<close>

definition GetGlobalValue ::
  "('v, 'l) Ext \<Rightarrow> ('v, 'l) LLVMContext \<Rightarrow> GlobalAllocationScope \<Rightarrow> string \<Rightarrow>
   error + ('v, 'l) Value option" where
  "GetGlobalValue X s scope name =
     (case GetScopeAdjustedName s scope name of
        Inl e \<Rightarrow> Inl e
      | Inr adjustedName \<Rightarrow>
          (case globals s adjustedName of
             Some (e, l) \<Rightarrow> Inr (Some (EmittableValue X e l))
           | None \<Rightarrow> Inr None))"

subsection \<open>Defined functions\<close>

text \<open>
  \<^verbatim>\<open>LLVMContext::IsFunctionDefinedImpl\<close>.
\<close>

definition IsFunctionDefinedImpl ::
  "('v, 'l) Ext \<Rightarrow> ('v, 'l) LLVMContext \<Rightarrow> ('v, 'l) FunctionDeclaration \<Rightarrow> bool" where
  "IsFunctionDefinedImpl X s decl =
     (if IsIntrinsic X decl then True
      else definedFunctions s (declarationKey decl) \<noteq> None)"


subsection \<open>Allocation\<close>

text \<open>
  \<^verbatim>\<open>LLVMContext::AllocateImpl(type, layout)\<close>: a fresh function-local variable, zero-filled.
\<close>

definition AllocateImpl ::
  "('v, 'l) Ext \<Rightarrow> ('v, 'l) LLVMContext \<Rightarrow> ValueType \<Rightarrow> 'l \<Rightarrow>
   (('v, 'l) Value, 'v, 'l) result" where
  "AllocateImpl X s type l =
     (case GetFunctionEmitter s of
        Inl e \<Rightarrow> Inl (e, s)
      | Inr fn \<Rightarrow>
          (case ValueTypeToLLVMType (type, 0) of
             Inl e \<Rightarrow> Inl (e, s)
           | Inr llvmType \<Rightarrow>
               (let allocatedVariable = Variable (nextVariable s);
                    s' = s\<lparr>nextVariable := Suc (nextVariable s),
                           emitted := emitted s @ [MemorySet allocatedVariable (GetMemorySize X l)]\<rparr>
                in Inr (EmittableValue X allocatedVariable l, s'))))"

subsection \<open>Constant promotion\<close>

text \<open>
  \<^verbatim>\<open>std::to_string\<close> of a size.
\<close>

fun to_string :: "nat \<Rightarrow> string" where
  "to_string n =
     (if n < 10 then [char_of (48 + n)]
      else to_string (n div 10) @ [char_of (48 + n mod 10)])"

declare to_string.simps [simp del]

text \<open>
  Modelled from the spec: \<^verbatim>\<open>ComputeContext::GetConstantData(value)\<close> returns the constant
  buffer that the Value's pointer points into; its address is the buffer's identity.
  A pointer whose buffer the interpreting backend does not own has no buffer to return.
\<close>

definition GetConstantData ::
  "('v, 'l) LLVMContext \<Rightarrow> ('v, 'l) Value \<Rightarrow> error + (nat \<times> ValueType \<times> 'v list \<times> int)" where
  "GetConstantData s v =
     (case underlyingData v of
        ConstantPointer t a off \<Rightarrow>
          (case constantData s a of
             Some (t', elems) \<Rightarrow> Inr (a, t', elems, off)
           | None \<Rightarrow> Inl UndefinedBehaviour)
      | _ \<Rightarrow> Inl UndefinedBehaviour)"

text \<open>
  \<^verbatim>\<open>LLVMContext::HasBeenPromoted\<close>: the record whose \<^verbatim>\<open>data\<close> is the address of the Value's
  constant buffer, searched in the top of the promoted-constant stack.
\<close>

definition HasBeenPromoted ::
  "('v, 'l) Ext \<Rightarrow> ('v, 'l) LLVMContext \<Rightarrow> ('v, 'l) Value \<Rightarrow>
   error + (nat \<times> 'v LLVMValue) option" where
  "HasBeenPromoted X s v =
     (if \<not> IsDefined v \<or> IsEmpty X v \<or> \<not> IsConstant v then Inr None
      else
        (case GetConstantData s v of
           Inl e \<Rightarrow> Inl e
         | Inr (a, t, elems, off) \<Rightarrow>
             (case promotedConstantStack s of
                [] \<Rightarrow> Inl UndefinedBehaviour
              | promotedStack # rest \<Rightarrow> Inr (find (\<lambda>desc. fst desc = a) promotedStack))))"

text \<open>
  \<^verbatim>\<open>LLVMContext::Realize\<close>.
\<close>

definition Realize ::
  "('v, 'l) Ext \<Rightarrow> ('v, 'l) LLVMContext \<Rightarrow> ('v, 'l) Value \<Rightarrow> error + ('v, 'l) Value" where
  "Realize X s v =
     (case HasBeenPromoted X s v of
        Inl e \<Rightarrow> Inl e
      | Inr None \<Rightarrow> Inr v
      | Inr (Some promotionalDesc) \<Rightarrow>
          (case GetConstantData s v of
             Inl e \<Rightarrow> Inl e
           | Inr (a, t, elems, offset) \<Rightarrow>
               (case GetFunctionEmitter s of
                  Inl e \<Rightarrow> Inl e
                | Inr fn \<Rightarrow>
                    Inr (SetData v
                      (Emittable (PointerOffset (snd promotionalDesc) (LiteralInt offset)))))))"

text \<open>
  \<^verbatim>\<open>LLVMContext::PromoteConstantData\<close>. Outside any function the storage is the new global
  itself; inside a function it is a new local variable into which the global is copied.
  The record is appended to the top of the promoted-constant stack.
\<close>

definition PromoteConstantData ::
  "('v, 'l) Ext \<Rightarrow> ('v, 'l) LLVMContext \<Rightarrow> ('v, 'l) Value \<Rightarrow>
   (('v, 'l) Value, 'v, 'l) result" where
  "PromoteConstantData X s v =
     (if \<not> (IsConstant v \<and> IsDefined v \<and> \<not> IsEmpty X v) then Inl (UndefinedBehaviour, s)
      else
        (case GetConstantData s v of
           Inl e \<Rightarrow> Inl (e, s)
         | Inr (a, t, elems, offset) \<Rightarrow>
             (case promotedConstantStack s of
                [] \<Rightarrow> Inl (UndefinedBehaviour, s)
              | promotedStack # rest \<Rightarrow>
                  (let stored = (if t = Boolean then Byte else t);
                       suffix = ''_'' @ to_string (length promotedStack)
                   in case functionStack s of
                        [] \<Rightarrow>
                          (let globalName = GetGlobalScopedName s suffix;
                               llvmValue = GlobalVariable globalName;
                               s' = s\<lparr>emitted := emitted s @ [GlobalArrayData globalName stored elems],
                                      promotedConstantStack :=
                                        (promotedStack @ [(a, llvmValue)]) # rest\<rparr>
                           in Inr (SetData v
                                (Emittable (PointerOffset llvmValue (LiteralInt offset))), s'))
                      | fn # fns \<Rightarrow>
                          (let globalName = GetGlobalScopedName s (fn @ ''_'' @ suffix);
                               globalVariable = GlobalVariable globalName;
                               newValue = Variable (nextVariable s);
                               s' = s\<lparr>nextVariable := Suc (nextVariable s),
                                      emitted := emitted s @
                                        [GlobalArrayData globalName stored elems,
                                         MemoryCopy globalVariable newValue (length elems)],
                                      promotedConstantStack :=
                                        (promotedStack @ [(a, newValue)]) # rest\<rparr>
                           in Inr (SetData v
                                (Emittable (PointerOffset newValue (LiteralInt offset))), s'))))))"

text \<open>
  \<^verbatim>\<open>LLVMContext::EnsureEmittable\<close>.
\<close>

definition EnsureEmittable ::
  "('v, 'l) Ext \<Rightarrow> ('v, 'l) LLVMContext \<Rightarrow> ('v, 'l) Value \<Rightarrow>
   (('v, 'l) Value, 'v, 'l) result" where
  "EnsureEmittable X s v =
     (if \<not> IsConstant v then Inr (v, s)
      else
        (case Realize X s v of
           Inl e \<Rightarrow> Inl (e, s)
         | Inr newValue \<Rightarrow>
             if \<not> IsConstant newValue then Inr (newValue, s)
             else PromoteConstantData X s newValue))"


subsection \<open>Function definition\<close>

text \<open>
  \<^verbatim>\<open>ValueTypeToVariableType\<close>.
\<close>

definition ValueTypeToVariableType :: "ValueType \<Rightarrow> error + VariableType" where
  "ValueTypeToVariableType type =
     (case type of
        Boolean \<Rightarrow> Inr VarBoolean
      | Byte \<Rightarrow> Inr BytePointer
      | Char8 \<Rightarrow> Inr Char8Pointer
      | Int16 \<Rightarrow> Inr Int16Pointer
      | Int32 \<Rightarrow> Inr Int32Pointer
      | Int64 \<Rightarrow> Inr Int64Pointer
      | Float \<Rightarrow> Inr FloatPointer
      | Double \<Rightarrow> Inr DoublePointer
      | Void \<Rightarrow> Inr VarVoid
      | Undefined \<Rightarrow> Inl (LogicException illegalState))"

text \<open>
  \<^verbatim>\<open>std::transform\<close> with a function that may throw: the first exception ends it.
\<close>

fun transform :: "('a \<Rightarrow> error + 'b) \<Rightarrow> 'a list \<Rightarrow> error + 'b list" where
  "transform f [] = Inr []"
| "transform f (x # xs) =
     (case f x of
        Inl e \<Rightarrow> Inl e
      | Inr y \<Rightarrow> (case transform f xs of Inl e \<Rightarrow> Inl e | Inr ys \<Rightarrow> Inr (y # ys)))"

text \<open>
  \<^verbatim>\<open>FunctionScope\<close>: the constructor begins the function and pushes it and an empty
  promoted-constant record; the destructor pops both, on every exit path.
\<close>

definition FunctionScope_enter ::
  "('v, 'l) LLVMContext \<Rightarrow> string \<Rightarrow> VariableType \<Rightarrow> VariableType list \<Rightarrow>
   ('v, 'l) LLVMContext" where
  "FunctionScope_enter s fnName returnType argTypes =
     s\<lparr>emitted := emitted s @ [BeginFunction fnName returnType argTypes],
       functionStack := fnName # functionStack s,
       promotedConstantStack := [] # promotedConstantStack s\<rparr>"

definition FunctionScope_exit :: "('v, 'l) LLVMContext \<Rightarrow> ('v, 'l) LLVMContext" where
  "FunctionScope_exit s =
     s\<lparr>functionStack := tl (functionStack s),
       promotedConstantStack := tl (promotedConstantStack s)\<rparr>"

text \<open>
  The parameter Values of the declaration with the function's arguments as their data.
\<close>

definition argumentValues :: "('v, 'l) Value list \<Rightarrow> ('v, 'l) Value list" where
  "argumentValues argValues =
     map (\<lambda>(idx, v). SetData v (Emittable (Argument idx))) (enumerate 0 argValues)"

text \<open>
  \<^verbatim>\<open>LLVMContext::CreateFunctionImpl(decl, fn)\<close>. The body \<open>fn\<close> is a callback that reads and
  changes the context and may throw. The model is split at the block that holds the
  \<^verbatim>\<open>FunctionScope\<close>: \<open>CreateFunction_end\<close> is the end of the block (\<^verbatim>\<open>EndFunction\<close>, the
  destructor of the scope) followed by the registration of the callable;
  \<open>CreateFunction_scope\<close> is the block.
\<close>

definition CreateFunction_end ::
  "('v, 'l) LLVMContext \<Rightarrow> ('v, 'l) FunctionDeclaration \<Rightarrow> 'v LLVMValue option \<Rightarrow>
   (('v, 'l) DefinedFunction, 'v, 'l) result" where
  "CreateFunction_end s decl returned =
     (let s1 = s\<lparr>emitted := emitted s @ [EndFunction returned]\<rparr>;
          s2 = FunctionScope_exit s1;
          returnFn = DefinedFunction decl
      in Inr (returnFn,
           s2\<lparr>definedFunctions := (definedFunctions s2)(declarationKey decl \<mapsto> returnFn)\<rparr>))"

definition CreateFunction_scope ::
  "('v, 'l) Ext \<Rightarrow> ('v, 'l) LLVMContext \<Rightarrow> ('v, 'l) FunctionDeclaration \<Rightarrow>
   (('v, 'l) Value list \<Rightarrow> ('v, 'l) LLVMContext \<Rightarrow> (('v, 'l) Value option, 'v, 'l) result) \<Rightarrow>
   VariableType \<Rightarrow> VariableType list \<Rightarrow> (('v, 'l) DefinedFunction, 'v, 'l) result" where
  "CreateFunction_scope X s decl fn returnVariableType variableArgTypes =
     (let s1 = FunctionScope_enter s (GetFunctionName decl) returnVariableType variableArgTypes;
          s2 = s1\<lparr>emitted := emitted s1 @ [SetAttributeForArguments]\<rparr>;
          argValuesCopy = argumentValues (GetParameterTypes decl)
      in case fn argValuesCopy s2 of
           Inl (e, s3) \<Rightarrow> Inl (e, FunctionScope_exit s3)
         | Inr (None, s3) \<Rightarrow> CreateFunction_end s3 decl None
         | Inr (Some returnValueCopy, s3) \<Rightarrow>
             (case EnsureEmittable X s3 returnValueCopy of
                Inl (e, s4) \<Rightarrow> Inl (e, FunctionScope_exit s4)
              | Inr (emittable, s4) \<Rightarrow>
                  (case underlyingData emittable of
                     Emittable llvmValue \<Rightarrow> CreateFunction_end s4 decl (Some llvmValue)
                   | UndefinedData \<Rightarrow> Inl (UndefinedBehaviour, FunctionScope_exit s4)
                   | ConstantPointer t a off \<Rightarrow>
                       Inl (UndefinedBehaviour, FunctionScope_exit s4))))"

definition CreateFunctionImpl ::
  "('v, 'l) Ext \<Rightarrow> ('v, 'l) LLVMContext \<Rightarrow> ('v, 'l) FunctionDeclaration \<Rightarrow>
   (('v, 'l) Value list \<Rightarrow> ('v, 'l) LLVMContext \<Rightarrow> (('v, 'l) Value option, 'v, 'l) result) \<Rightarrow>
   (('v, 'l) DefinedFunction, 'v, 'l) result" where
  "CreateFunctionImpl X s decl fn =
     (if IsIntrinsic X decl then Inl (InputException invalidArgument, s)
      else
        (case definedFunctions s (declarationKey decl) of
           Some existing \<Rightarrow> Inr (existing, s)
         | None \<Rightarrow>
             (case transform (\<lambda>v. ValueTypeToVariableType (GetBaseType v))
                     (GetParameterTypes decl) of
                Inl e \<Rightarrow> Inl (e, s)
              | Inr variableArgTypes \<Rightarrow>
                  (let returnValueType =
                         (case GetReturnType decl of Some r \<Rightarrow> GetBaseType r | None \<Rightarrow> Void)
                   in case ValueTypeToVariableType returnValueType of
                        Inl e \<Rightarrow> Inl (e, s)
                      | Inr returnVariableType \<Rightarrow>
                          CreateFunction_scope X s decl fn returnVariableType
                            variableArgTypes))))"


subsection \<open>Per-element loops\<close>

text \<open>
  The body of a \<^verbatim>\<open>do { ... } while (IncrementMemoryCoordinate(...))\<close> loop run over the
  coordinates of the loop, in order; an exception thrown by the body ends the loop.
\<close>

fun doWhile ::
  "(int32 list \<Rightarrow> 'c \<Rightarrow> (error \<times> 'c) + 'c) \<Rightarrow> int32 list list \<Rightarrow> 'c \<Rightarrow> (error \<times> 'c) + 'c" where
  "doWhile body [] c = Inr c"
| "doWhile body (coordinate # rest) c =
     (case body coordinate c of
        Inl e \<Rightarrow> Inl e
      | Inr c' \<Rightarrow> doWhile body rest c')"

text \<open>
  \<^verbatim>\<open>ToLLVMValue(value)\<close> is \<^verbatim>\<open>value.Get<Emittable>().GetDataAs<LLVMValue>()\<close>: it exists only for
  the emittable alternative.
\<close>

definition ToLLVMValue :: "('v, 'l) Value \<Rightarrow> error + 'v LLVMValue" where
  "ToLLVMValue v =
     (case underlyingData v of
        Emittable e \<Rightarrow> Inr e
      | UndefinedData \<Rightarrow> Inl UndefinedBehaviour
      | ConstantPointer t a off \<Rightarrow> Inl UndefinedBehaviour)"

text \<open>
  \<^verbatim>\<open>*(data + i)\<close> for a pointer \<open>data\<close> into a constant buffer: the element at the pointer's
  offset plus \<open>i\<close>, when that is inside the buffer.
\<close>

definition readConstant ::
  "('v, 'l) LLVMContext \<Rightarrow> nat \<Rightarrow> int \<Rightarrow> int \<Rightarrow> error + 'v" where
  "readConstant s a off i =
     (case constantData s a of
        None \<Rightarrow> Inl UndefinedBehaviour
      | Some (t, elems) \<Rightarrow>
          if 0 \<le> off + i \<and> off + i < int (length elems) then Inr (elems ! nat (off + i))
          else Inl UndefinedBehaviour)"

definition emit :: "'v Instr \<Rightarrow> ('v, 'l) LLVMContext \<Rightarrow> ('v, 'l) LLVMContext" where
  "emit i s = s\<lparr>emitted := emitted s @ [i]\<rparr>"

subsection \<open>Copy and move\<close>

text \<open>
  \<^verbatim>\<open>LLVMContext::CopyDataImpl(source, destination)\<close>. The destination is passed by reference:
  the model returns it (only the interpreting backend changes it).
\<close>

definition CopyData_constantSource ::
  "('v, 'l) Ext \<Rightarrow> 'v LLVMValue \<Rightarrow> 'l \<Rightarrow> nat \<Rightarrow> int \<Rightarrow> int32 list \<Rightarrow>
   ('v, 'l) LLVMContext \<Rightarrow> (error \<times> ('v, 'l) LLVMContext) + ('v, 'l) LLVMContext" where
  "CopyData_constantSource X destValue l a off coordinate s =
     (case readConstant s a off (GetEntryOffset X l coordinate) of
        Inl e \<Rightarrow> Inl (e, s)
      | Inr x \<Rightarrow>
          (let srcAtOffset = Literal x;
               destOffset = LiteralInt (GetEntryOffset X l coordinate);
               destAtOffset = PointerOffset destValue destOffset
           in Inr (emit (Store destAtOffset srcAtOffset) s)))"

definition CopyData_emittableSource ::
  "('v, 'l) Ext \<Rightarrow> 'v LLVMValue \<Rightarrow> 'v LLVMValue \<Rightarrow> 'l \<Rightarrow> int32 list \<Rightarrow>
   ('v, 'l) LLVMContext \<Rightarrow> (error \<times> ('v, 'l) LLVMContext) + ('v, 'l) LLVMContext" where
  "CopyData_emittableSource X srcValue destValue l coordinate s =
     (let offset = LiteralInt (GetEntryOffset X l coordinate);
          srcAtOffset = PointerOffset srcValue offset;
          destAtOffset = PointerOffset destValue offset
      in Inr (emit (Store destAtOffset (Load srcAtOffset)) s))"

definition withValue ::
  "('v, 'l) Value \<Rightarrow> (error \<times> ('v, 'l) LLVMContext) + ('v, 'l) LLVMContext \<Rightarrow>
   (('v, 'l) Value, 'v, 'l) result" where
  "withValue v r = (case r of Inl e \<Rightarrow> Inl e | Inr s \<Rightarrow> Inr (v, s))"

definition CopyDataImpl ::
  "('v, 'l) Ext \<Rightarrow> ('v, 'l) LLVMContext \<Rightarrow> ('v, 'l) Value \<Rightarrow> ('v, 'l) Value \<Rightarrow>
   (('v, 'l) Value, 'v, 'l) result" where
  "CopyDataImpl X s source destination =
     (if IsConstant destination then
        (if IsConstant source then
           (case computeCopyData X source destination of
              Inl e \<Rightarrow> Inl (e, s)
            | Inr destination' \<Rightarrow> Inr (destination', s))
         else Inl (LogicException illegalState, s))
      else if \<not> TypeCompatible destination source \<and>
              (PointerLevel destination = PointerLevel source \<or>
               PointerLevel destination = 1 + PointerLevel source)
        then Inl (InputException typeMismatch, s)
      else
        (case ToLLVMValue destination of
           Inl e \<Rightarrow> Inl (e, s)
         | Inr destValue \<Rightarrow>
             (case underlyingData source of
                ConstantPointer t a off \<Rightarrow>
                  (case GetLayout source of
                     Inl e \<Rightarrow> Inl (e, s)
                   | Inr l \<Rightarrow>
                       withValue destination
                         (doWhile (CopyData_constantSource X destValue l a off)
                            (coordinates (GetActiveSize X l)) s))
              | UndefinedData \<Rightarrow> Inl (UndefinedBehaviour, s)
              | Emittable srcValue \<Rightarrow>
                  if srcValue = destValue then Inr (destination, s)
                  else
                    (case GetLayout source of
                       Inl e \<Rightarrow> Inl (e, s)
                     | Inr l \<Rightarrow>
                         if IsContiguous X l then
                           (if PointerLevel destination = PointerLevel source
                            then Inr (destination,
                                   emit (MemoryCopy srcValue destValue (GetMemorySize X l)) s)
                            else Inr (destination,
                                   emit (Store (PointerOffset destValue (LiteralInt 0)) srcValue) s))
                         else
                           withValue destination
                             (doWhile (CopyData_emittableSource X srcValue destValue l)
                                (coordinates (GetActiveSize X l)) s)))))"

text \<open>
  \<^verbatim>\<open>LLVMContext::MoveDataImpl(source, destination)\<close>: both are passed by reference and may be
  the same object. The caller's Values live in a store \<open>objects\<close>, by reference; the call
  returns the store as it leaves it: the copy writes the destination, then the source is
  reset.
\<close>

definition MoveDataImpl ::
  "('v, 'l) Ext \<Rightarrow> ('v, 'l) LLVMContext \<Rightarrow> (nat \<Rightarrow> ('v, 'l) Value) \<Rightarrow> nat \<Rightarrow> nat \<Rightarrow>
   (nat \<Rightarrow> ('v, 'l) Value, 'v, 'l) result" where
  "MoveDataImpl X s objects source destination =
     (case CopyDataImpl X s (objects source) (objects destination) of
        Inl e \<Rightarrow> Inl e
      | Inr (destination', s') \<Rightarrow>
          (let copied = objects(destination := destination')
           in Inr (copied(source := Reset (copied source)), s')))"

subsection \<open>Offset, unary operations and casts\<close>




text \<open>
  \<^verbatim>\<open>LLVMContext::CastImpl(value, type)\<close>. The loop runs over the indices below the memory size
  of the layout, not over coordinates. \<^verbatim>\<open>ValueTypeToLLVMType(..., { type, 0 })\<close> in its body
  has succeeded inside \<^verbatim>\<open>Allocate\<close> when the loop is reached.
\<close>

definition CastImpl ::
  "('v, 'l) Ext \<Rightarrow> ('v, 'l) LLVMContext \<Rightarrow> ('v, 'l) Value \<Rightarrow> ValueType \<Rightarrow>
   (('v, 'l) Value, 'v, 'l) result" where
  "CastImpl X s v type =
     (if IsConstant v then
        (case computeCast X v type of
           Inl e \<Rightarrow> Inl (e, s)
         | Inr r \<Rightarrow> Inr (r, s))
      else
        (case ToLLVMValue v of
           Inl e \<Rightarrow> Inl (e, s)
         | Inr data \<Rightarrow>
             (case GetFunctionEmitter s of
                Inl e \<Rightarrow> Inl (e, s)
              | Inr fn \<Rightarrow>
                  (case AllocateImpl X s type
                          (case layout v of Some l \<Rightarrow> l | None \<Rightarrow> ScalarLayout X) of
                     Inl e \<Rightarrow> Inl e
                   | Inr (castedData, s1) \<Rightarrow>
                       (case ToLLVMValue castedData of
                          Inl e \<Rightarrow> Inl (e, s1)
                        | Inr castedValue \<Rightarrow>
                            (case GetLayout castedData of
                               Inl e \<Rightarrow> Inl (e, s1)
                             | Inr castedLayout \<Rightarrow>
                                 Inr (castedData,
                                      foldl (\<lambda>s index.
                                               emit (SetValueAt castedValue (LiteralInt (int index))
                                                       (CastValue type
                                                          (ValueAt data (LiteralInt (int index))))) s)
                                        s1 [0..<GetMemorySize X castedLayout])))))))"


subsection \<open>Binary operations\<close>

text \<open>
  The \<^verbatim>\<open>switch (op)\<close> of \<^verbatim>\<open>BinaryOperationImpl\<close>: the typed operator that \<^verbatim>\<open>opFn\<close> applies, or
  the exception thrown instead. \<open>isFp\<close> is \<^verbatim>\<open>destination.IsFloatingPoint()\<close>.
\<close>

definition BinaryOperation_opFn :: "ValueBinaryOperation \<Rightarrow> bool \<Rightarrow> error + TypedOperator" where
  "BinaryOperation_opFn op isFp =
     (case op of
        add_op \<Rightarrow> Inr (if isFp then addFloat else add)
      | subtract_op \<Rightarrow> Inr (if isFp then subtractFloat else subtract)
      | multiply_op \<Rightarrow> Inr (if isFp then multiplyFloat else multiply)
      | divide_op \<Rightarrow> Inr (if isFp then divideFloat else divideSigned)
      | modulus_op \<Rightarrow>
          if isFp then Inl (InputException invalidArgument) else Inr moduloSigned)"

text \<open>
  One iteration of the loop of \<^verbatim>\<open>BinaryOperationImpl\<close>: the source operand is read through
  the emittable handle or is a literal read from the constant buffer.
\<close>

definition BinaryOperation_step ::
  "('v, 'l) Ext \<Rightarrow> TypedOperator \<Rightarrow> 'v LLVMValue \<Rightarrow> 'v UnderlyingData \<Rightarrow> 'l \<Rightarrow> int32 list \<Rightarrow>
   ('v, 'l) LLVMContext \<Rightarrow> (error \<times> ('v, 'l) LLVMContext) + ('v, 'l) LLVMContext" where
  "BinaryOperation_step X operator destValue sourceData l coordinate s =
     (let offset = LiteralInt (GetEntryOffset X l coordinate)
      in case sourceData of
           Emittable srcValue \<Rightarrow>
             Inr (emit (SetValueAt destValue offset
                    (Operator operator (ValueAt destValue offset) (ValueAt srcValue offset))) s)
         | ConstantPointer t a off \<Rightarrow>
             (case readConstant s a off (GetEntryOffset X l coordinate) of
                Inl e \<Rightarrow> Inl (e, s)
              | Inr x \<Rightarrow>
                  Inr (emit (SetValueAt destValue offset
                         (Operator operator (ValueAt destValue offset) (Literal x))) s))
         | UndefinedData \<Rightarrow> Inr s)"

text \<open>
  The part of \<^verbatim>\<open>BinaryOperationImpl\<close> after the destination is known: the type and layout
  checks and the visit of the source's data. \<open>destination\<close> is returned as it is; the
  operations are emitted on its emittable form.
\<close>

definition BinaryOperation_emit ::
  "('v, 'l) Ext \<Rightarrow> ('v, 'l) LLVMContext \<Rightarrow> ValueBinaryOperation \<Rightarrow> ('v, 'l) Value \<Rightarrow>
   ('v, 'l) Value \<Rightarrow> (('v, 'l) Value, 'v, 'l) result" where
  "BinaryOperation_emit X s op destination source =
     (if \<not> TypeCompatible destination source then Inl (InputException typeMismatch, s)
      else
        (case GetLayout destination of
           Inl e \<Rightarrow> Inl (e, s)
         | Inr destinationLayout \<Rightarrow>
             (case GetLayout source of
                Inl e \<Rightarrow> Inl (e, s)
              | Inr sourceLayout \<Rightarrow>
                  if destinationLayout \<noteq> sourceLayout then Inl (InputException sizeMismatch, s)
                  else
                    (case GetFunctionEmitter s of
                       Inl e \<Rightarrow> Inl (e, s)
                     | Inr fn \<Rightarrow>
                         (case EnsureEmittable X s destination of
                            Inl e \<Rightarrow> Inl e
                          | Inr (emittableDestination, s1) \<Rightarrow>
                              (case underlyingData source of
                                 UndefinedData \<Rightarrow> Inr (destination, s1)
                               | ConstantPointer Boolean a off \<Rightarrow>
                                   Inl (LogicException notImplemented, s1)
                               | sourceData \<Rightarrow>
                                   (case BinaryOperation_opFn op
                                           (IsFloatingPoint X emittableDestination) of
                                      Inl e \<Rightarrow> Inl (e, s1)
                                    | Inr operator \<Rightarrow>
                                        (case ToLLVMValue emittableDestination of
                                           Inl e \<Rightarrow> Inl (e, s1)
                                         | Inr destValue \<Rightarrow>
                                             withValue destination
                                               (doWhile
                                                  (BinaryOperation_step X operator destValue
                                                     sourceData destinationLayout)
                                                  (coordinates
                                                     (GetActiveSize X destinationLayout))
                                                  s1)))))))))"

text \<open>
  \<^verbatim>\<open>LLVMContext::BinaryOperationImpl(op, destination, source)\<close>.
\<close>

definition BinaryOperationImpl ::
  "('v, 'l) Ext \<Rightarrow> ('v, 'l) LLVMContext \<Rightarrow> ValueBinaryOperation \<Rightarrow> ('v, 'l) Value \<Rightarrow>
   ('v, 'l) Value \<Rightarrow> (('v, 'l) Value, 'v, 'l) result" where
  "BinaryOperationImpl X s op destination source =
     (if \<not> IsDefined source then Inl (InputException invalidArgument, s)
      else if IsDefined destination then
        (if IsConstant source \<and> IsConstant destination then
           (case computeBinaryOperation X op destination source of
              Inl e \<Rightarrow> Inl (e, s)
            | Inr folded \<Rightarrow> Inr (folded, s))
         else BinaryOperation_emit X s op destination source)
      else
        (case GetLayout source of
           Inl e \<Rightarrow> Inl (e, s)
         | Inr sourceLayout \<Rightarrow>
             (case AllocateImpl X s (GetBaseType source) sourceLayout of
                Inl e \<Rightarrow> Inl e
              | Inr (allocated, s1) \<Rightarrow> BinaryOperation_emit X s1 op allocated source)))"


subsection \<open>Intrinsics\<close>

text \<open>
  The lambda \<open>variableType\<close> of both intrinsics: the width of the runtime math function.
\<close>

definition intrinsicVariableType :: "ValueType \<Rightarrow> VariableType" where
  "intrinsicVariableType type = (case type of Float \<Rightarrow> VarFloat | _ \<Rightarrow> VarDouble)"

text \<open>
  The operand of the runtime function at an offset: read as it is from a floating-point
  Value, cast to \<^verbatim>\<open>double\<close> otherwise.
\<close>

definition intrinsicOperand ::
  "('v, 'l) Ext \<Rightarrow> ('v, 'l) Value \<Rightarrow> 'v LLVMValue \<Rightarrow> int \<Rightarrow> 'v LLVMValue" where
  "intrinsicOperand X v llvmValue offset =
     (if IsFloatingPoint X v \<or> IsFloatingPointPointer X v
      then ValueAt llvmValue (LiteralInt offset)
      else CastValue Double (ValueAt llvmValue (LiteralInt offset)))"

text \<open>
  \<^verbatim>\<open>SimpleNumericalFunctionIntrinsic(fnEmitter, intrinsicFn)\<close>, applied to the arguments;
  \<open>name\<close> names the runtime function that \<^verbatim>\<open>intrinsicFn\<close> gets.
\<close>

definition SimpleNumericalFunctionIntrinsic ::
  "('v, 'l) Ext \<Rightarrow> string \<Rightarrow> ('v, 'l) LLVMContext \<Rightarrow> ('v, 'l) Value list \<Rightarrow>
   (('v, 'l) Value, 'v, 'l) result" where
  "SimpleNumericalFunctionIntrinsic X name s args =
     (case args of
        [v] \<Rightarrow>
          if GetBaseType v = Boolean then Inl (InputException typeMismatch, s)
          else
            (let llvmFunc = RuntimeFunction name (intrinsicVariableType (GetBaseType v));
                 l = (case layout v of Some l \<Rightarrow> l | None \<Rightarrow> ScalarLayout X)
             in case AllocateImpl X s (GetBaseType v) l of
                  Inl e \<Rightarrow> Inl e
                | Inr (returnValue, s1) \<Rightarrow>
                    (case GetLayout returnValue of
                       Inl e \<Rightarrow> Inl (e, s1)
                     | Inr returnLayout \<Rightarrow>
                         (case ToLLVMValue v of
                            Inl e \<Rightarrow> Inl (e, s1)
                          | Inr inputLLVMValue \<Rightarrow>
                              (case ToLLVMValue returnValue of
                                 Inl e \<Rightarrow> Inl (e, s1)
                               | Inr returnLLVMValue \<Rightarrow>
                                   withValue returnValue
                                     (doWhile
                                        (\<lambda>coordinate s.
                                           let logicalCoordinates =
                                                 GetLogicalCoordinates X returnLayout coordinate;
                                               offset = GetLogicalEntryOffset X returnLayout
                                                          logicalCoordinates;
                                               resultValue = Call llvmFunc
                                                 [intrinsicOperand X v inputLLVMValue offset]
                                           in Inr (emit (SetValueAt returnLLVMValue
                                                           (LiteralInt offset) resultValue) s))
                                        (coordinates (GetActiveSize X returnLayout)) s1)))))
      | _ \<Rightarrow> Inl (InputException invalidSize, s))"

text \<open>
  \<^verbatim>\<open>PowFunctionIntrinsic(fnEmitter)\<close>, applied to the arguments.
\<close>

definition PowFunctionIntrinsic ::
  "('v, 'l) Ext \<Rightarrow> ('v, 'l) LLVMContext \<Rightarrow> ('v, 'l) Value list \<Rightarrow>
   (('v, 'l) Value, 'v, 'l) result" where
  "PowFunctionIntrinsic X s args =
     (case args of
        [value1, value2] \<Rightarrow>
          if GetBaseType value1 \<noteq> GetBaseType value2 then Inl (InputException typeMismatch, s)
          else if GetBaseType value1 = Boolean then Inl (InputException typeMismatch, s)
          else if IsConstrained value2 \<and> layout value2 \<noteq> Some (ScalarLayout X)
            then Inl (InputException invalidSize, s)
          else
            (let llvmFunc = RuntimeFunction ''pow'' (intrinsicVariableType (GetBaseType value1));
                 l = (case layout value1 of Some l \<Rightarrow> l | None \<Rightarrow> ScalarLayout X)
             in case AllocateImpl X s (GetBaseType value1) l of
                  Inl e \<Rightarrow> Inl e
                | Inr (returnValue, s1) \<Rightarrow>
                    (case GetLayout returnValue of
                       Inl e \<Rightarrow> Inl (e, s1)
                     | Inr returnLayout \<Rightarrow>
                         (case ToLLVMValue value2 of
                            Inl e \<Rightarrow> Inl (e, s1)
                          | Inr exponent \<Rightarrow>
                              (let expLLVMValue = intrinsicOperand X value2 exponent 0
                               in case ToLLVMValue value1 of
                                    Inl e \<Rightarrow> Inl (e, s1)
                                  | Inr baseLLVMValue \<Rightarrow>
                                      (case ToLLVMValue returnValue of
                                         Inl e \<Rightarrow> Inl (e, s1)
                                       | Inr returnLLVMValue \<Rightarrow>
                                           withValue returnValue
                                             (doWhile
                                                (\<lambda>coordinate s.
                                                   let logicalCoordinates =
                                                         GetLogicalCoordinates X returnLayout
                                                           coordinate;
                                                       offset = GetLogicalEntryOffset X
                                                                  returnLayout logicalCoordinates;
                                                       resultValue = Call llvmFunc
                                                         [intrinsicOperand X value1
                                                            baseLLVMValue offset,
                                                          expLLVMValue]
                                                   in Inr (emit (SetValueAt returnLLVMValue
                                                                   (LiteralInt offset)
                                                                   resultValue) s))
                                                (coordinates (GetActiveSize X returnLayout))
                                                s1))))))
      | _ \<Rightarrow> Inl (InputException invalidSize, s))"

text \<open>
  \<^verbatim>\<open>MaxMinIntrinsicFunction(fnEmitter, intrinsic)\<close>, applied to the arguments.
\<close>

datatype MaxMinIntrinsic = MaxIntrinsic | MinIntrinsic

definition MaxMin_cmpOp :: "MaxMinIntrinsic \<Rightarrow> ValueType \<Rightarrow> TypedComparison" where
  "MaxMin_cmpOp intrinsic type =
     (if type = Float \<or> type = Double
      then (if intrinsic = MaxIntrinsic then greaterThanOrEqualsFloat else lessThanOrEqualsFloat)
      else (if intrinsic = MaxIntrinsic then greaterThanOrEquals else lessThanOrEquals))"

definition MaxMinIntrinsicFunction ::
  "('v, 'l) Ext \<Rightarrow> MaxMinIntrinsic \<Rightarrow> ('v, 'l) LLVMContext \<Rightarrow> ('v, 'l) Value list \<Rightarrow>
   (('v, 'l) Value, 'v, 'l) result" where
  "MaxMinIntrinsicFunction X intrinsic s args =
     (case args of
        [v] \<Rightarrow>
          if GetBaseType v = Boolean then Inl (InputException typeMismatch, s)
          else
            (case AllocateImpl X s (GetBaseType v) (ScalarLayout X) of
               Inl e \<Rightarrow> Inl e
             | Inr (result, s1) \<Rightarrow>
                 (let cmpOp = MaxMin_cmpOp intrinsic (GetBaseType v)
                  in case ToLLVMValue v of
                       Inl e \<Rightarrow> Inl (e, s1)
                     | Inr inputLLVMValue \<Rightarrow>
                         (case ToLLVMValue result of
                            Inl e \<Rightarrow> Inl (e, s1)
                          | Inr resultLLVMValue \<Rightarrow>
                              (let s2 = emit (SetValueAt resultLLVMValue (LiteralInt 0)
                                          (ValueAt inputLLVMValue (LiteralInt 0))) s1
                               in case GetLayout v of
                                    Inl e \<Rightarrow> Inl (e, s2)
                                  | Inr inputLayout \<Rightarrow>
                                      withValue result
                                        (doWhile
                                           (\<lambda>coordinate s.
                                              let logicalCoordinates =
                                                    GetLogicalCoordinates X inputLayout coordinate;
                                                  offset = GetLogicalEntryOffset X inputLayout
                                                             logicalCoordinates;
                                                  op1 = ValueAt resultLLVMValue (LiteralInt 0);
                                                  op2 = ValueAt inputLLVMValue (LiteralInt offset);
                                                  cmp = Comparison cmpOp op1 op2;
                                                  selected = Select cmp op1 op2
                                              in Inr (emit (SetValueAt resultLLVMValue
                                                              (LiteralInt 0) selected) s))
                                           (coordinates (GetActiveSize X inputLayout)) s2)))))
      | [value1, value2] \<Rightarrow>
          if GetBaseType value1 \<noteq> GetBaseType value2 then Inl (InputException typeMismatch, s)
          else if GetBaseType value1 = Boolean then Inl (InputException typeMismatch, s)
          else if (IsConstrained value1 \<and> layout value1 \<noteq> Some (ScalarLayout X)) \<or>
                  (IsConstrained value2 \<and> layout value2 \<noteq> Some (ScalarLayout X))
            then Inl (InputException invalidSize, s)
          else
            (case AllocateImpl X s (GetBaseType value1) (ScalarLayout X) of
               Inl e \<Rightarrow> Inl e
             | Inr (result, s1) \<Rightarrow>
                 (let cmpOp = MaxMin_cmpOp intrinsic (GetBaseType value1)
                  in case ToLLVMValue value1 of
                       Inl e \<Rightarrow> Inl (e, s1)
                     | Inr llvm1 \<Rightarrow>
                         (case ToLLVMValue value2 of
                            Inl e \<Rightarrow> Inl (e, s1)
                          | Inr llvm2 \<Rightarrow>
                              (let llvmValue1 = ValueAt llvm1 (LiteralInt 0);
                                   llvmValue2 = ValueAt llvm2 (LiteralInt 0);
                                   cmp = Comparison cmpOp llvmValue1 llvmValue2
                               in case ToLLVMValue result of
                                    Inl e \<Rightarrow> Inl (e, s1)
                                  | Inr resultValue \<Rightarrow>
                                      Inr (result,
                                           emit (SetValueAt resultValue (LiteralInt 0)
                                                   (Select cmp llvmValue1 llvmValue2)) s1)))))
      | _ \<Rightarrow> Inl (InputException invalidSize, s))"


subsection \<open>Calls\<close>










subsection \<open>Logical operations\<close>

text \<open>
  The \<^verbatim>\<open>switch (op)\<close> of \<^verbatim>\<open>LogicalOperationImpl\<close>; \<open>isFp\<close> is
  \<^verbatim>\<open>source1.IsFloatingPoint() || source1.IsFloatingPointPointer()\<close>.
\<close>

definition LogicalOperation_comparisonOp :: "ValueLogicalOperation \<Rightarrow> bool \<Rightarrow> TypedComparison" where
  "LogicalOperation_comparisonOp op isFp =
     (case op of
        equality \<Rightarrow> if isFp then equalsFloat else equals
      | inequality \<Rightarrow> if isFp then notEqualsFloat else notEquals
      | greaterthan \<Rightarrow> if isFp then greaterThanFloat else greaterThan
      | greaterthanorequal \<Rightarrow> if isFp then greaterThanOrEqualsFloat else greaterThanOrEquals
      | lessthan \<Rightarrow> if isFp then lessThanFloat else lessThan
      | lessthanorequal \<Rightarrow> if isFp then lessThanOrEqualsFloat else lessThanOrEquals)"

text \<open>
  Modelled from the spec: what the comparisons compute. The operations are "{equal,
  not-equal, gt, gte, lt, lte}"; "floating-point operands use ordered float comparisons;
  others use signed-integer comparisons". The elements \<open>'v\<close> are linearly ordered, and
  both families of typed comparisons are the comparisons of that order (a NaN, on which an
  ordered float comparison is false, is not an element of the model).
\<close>

definition logicalComparison :: "ValueLogicalOperation \<Rightarrow> 'v::linorder \<Rightarrow> 'v \<Rightarrow> bool" where
  "logicalComparison op x y =
     (case op of
        equality \<Rightarrow> x = y
      | inequality \<Rightarrow> x \<noteq> y
      | greaterthan \<Rightarrow> x > y
      | greaterthanorequal \<Rightarrow> x \<ge> y
      | lessthan \<Rightarrow> x < y
      | lessthanorequal \<Rightarrow> x \<le> y)"


text \<open>
  Modelled from the spec: \<^verbatim>\<open>StoreConstantData\<close> "wraps caller data as a constant Value"; the
  interpreting backend owns the new buffer, and the Value points at its start.
\<close>

definition StoreConstantData ::
  "('v, 'l) LLVMContext \<Rightarrow> ValueType \<Rightarrow> 'v list \<Rightarrow> 'l \<Rightarrow>
   ('v, 'l) Value \<times> ('v, 'l) LLVMContext" where
  "StoreConstantData s t elems l =
     (\<lparr>underlyingData = ConstantPointer t (nextConstant s) 0, valueType = (t, 1),
       layout = Some l\<rparr>,
      s\<lparr>constantData := (constantData s)(nextConstant s \<mapsto> (t, elems)),
        nextConstant := Suc (nextConstant s)\<rparr>)"

text \<open>
  Modelled from the spec: \<^verbatim>\<open>ComputeContext::LogicalOperation\<close>, to which the source delegates
  when both operands are constant. It returns "a boolean scalar Value that is the logical
  AND, across every coordinate of the (equal-shaped) operands, of the per-element
  comparison"; the interpreting backend "iterate[s] coordinates per 4.4's ordering" and
  "every Value it produces is constant". One iteration reads the two elements at the
  coordinate's offset and conjoins their comparison to the result so far.
\<close>

definition ComputeContext_LogicalOperation_step ::
  "('v::linorder, 'l) Ext \<Rightarrow> ('v, 'l) LLVMContext \<Rightarrow> ValueLogicalOperation \<Rightarrow> 'l \<Rightarrow>
   nat \<Rightarrow> int \<Rightarrow> nat \<Rightarrow> int \<Rightarrow> int32 list \<Rightarrow> bool \<Rightarrow> (error \<times> bool) + bool" where
  "ComputeContext_LogicalOperation_step X s op l a1 off1 a2 off2 coordinate result =
     (let offset = GetLogicalEntryOffset X l (GetLogicalCoordinates X l coordinate)
      in case readConstant s a1 off1 offset of
           Inl e \<Rightarrow> Inl (e, result)
         | Inr x \<Rightarrow>
             (case readConstant s a2 off2 offset of
                Inl e \<Rightarrow> Inl (e, result)
              | Inr y \<Rightarrow> Inr (result \<and> logicalComparison op x y)))"

definition ComputeContext_LogicalOperation ::
  "('v::linorder, 'l) Ext \<Rightarrow> ('v, 'l) LLVMContext \<Rightarrow> ValueLogicalOperation \<Rightarrow> ('v, 'l) Value \<Rightarrow>
   ('v, 'l) Value \<Rightarrow> (('v, 'l) Value, 'v, 'l) result" where
  "ComputeContext_LogicalOperation X s op source1 source2 =
     (case underlyingData source1 of
        ConstantPointer t1 a1 off1 \<Rightarrow>
          (case underlyingData source2 of
             ConstantPointer t2 a2 off2 \<Rightarrow>
               (case GetLayout source1 of
                  Inl e \<Rightarrow> Inl (e, s)
                | Inr l \<Rightarrow>
                    (case doWhile (ComputeContext_LogicalOperation_step X s op l a1 off1 a2 off2)
                            (coordinates (GetActiveSize X l)) True of
                       Inl (e, partial) \<Rightarrow> Inl (e, s)
                     | Inr result \<Rightarrow>
                         Inr (StoreConstantData s Boolean [booleanElement X result]
                                (ScalarLayout X))))
           | _ \<Rightarrow> Inl (LogicException illegalState, s))
      | _ \<Rightarrow> Inl (LogicException illegalState, s))"

text \<open>
  The operand of a comparison at an offset: \<^verbatim>\<open>fn.ValueAt(llvmOp, offset)\<close> for an emittable
  handle, \<^verbatim>\<open>fn.Literal(static_cast<CastType>(data[offset]))\<close> for a pointer into a constant
  buffer.
\<close>

definition LogicalOperation_operand ::
  "('v, 'l) LLVMContext \<Rightarrow> 'v UnderlyingData \<Rightarrow> int \<Rightarrow> error + 'v LLVMValue" where
  "LogicalOperation_operand s sourceData offset =
     (case sourceData of
        Emittable llvmOp \<Rightarrow> Inr (ValueAt llvmOp (LiteralInt offset))
      | ConstantPointer t a off \<Rightarrow>
          (case readConstant s a off offset of
             Inl e \<Rightarrow> Inl e
           | Inr x \<Rightarrow> Inr (Literal x))
      | UndefinedData \<Rightarrow> Inl UndefinedBehaviour)"

text \<open>
  One iteration of the loops of \<^verbatim>\<open>LogicalOperationImpl\<close>: the three loops of the source
  differ only in how each operand is read. The state of the loop is \<open>result\<close>.
\<close>

definition LogicalOperation_step ::
  "('v, 'l) Ext \<Rightarrow> ('v, 'l) LLVMContext \<Rightarrow> TypedComparison \<Rightarrow> 'l \<Rightarrow> 'l \<Rightarrow>
   'v UnderlyingData \<Rightarrow> 'v UnderlyingData \<Rightarrow> int32 list \<Rightarrow> 'v LLVMValue \<Rightarrow>
   (error \<times> 'v LLVMValue) + 'v LLVMValue" where
  "LogicalOperation_step X s comparisonOp source1Layout source2Layout source1Data source2Data
     coordinate result =
     (let logicalCoordinates = GetLogicalCoordinates X source1Layout coordinate;
          source1Offset = GetLogicalEntryOffset X source1Layout logicalCoordinates;
          source2Offset = GetLogicalEntryOffset X source2Layout logicalCoordinates
      in case LogicalOperation_operand s source1Data source1Offset of
           Inl e \<Rightarrow> Inl (e, result)
         | Inr operand1 \<Rightarrow>
             (case LogicalOperation_operand s source2Data source2Offset of
                Inl e \<Rightarrow> Inl (e, result)
              | Inr operand2 \<Rightarrow>
                  Inr (LogicalAnd result (Comparison comparisonOp operand1 operand2))))"

definition LogicalOperation_loop ::
  "('v, 'l) Ext \<Rightarrow> ('v, 'l) LLVMContext \<Rightarrow> TypedComparison \<Rightarrow> 'l \<Rightarrow> 'l \<Rightarrow>
   'v UnderlyingData \<Rightarrow> 'v UnderlyingData \<Rightarrow> (('v, 'l) Value, 'v, 'l) result" where
  "LogicalOperation_loop X s comparisonOp source1Layout source2Layout source1Data source2Data =
     (case GetFunctionEmitter s of
        Inl e \<Rightarrow> Inl (e, s)
      | Inr fn \<Rightarrow>
          (case doWhile
                  (LogicalOperation_step X s comparisonOp source1Layout source2Layout
                     source1Data source2Data)
                  (coordinates (GetActiveSize X source1Layout)) TrueBit of
             Inl (e, partial) \<Rightarrow> Inl (e, s)
           | Inr result \<Rightarrow> Inr (EmittableValue X result (ScalarLayout X), s)))"

text \<open>
  \<^verbatim>\<open>LLVMContext::LogicalOperationImpl(op, source1, source2)\<close>.
\<close>

definition LogicalOperationImpl ::
  "('v::linorder, 'l) Ext \<Rightarrow> ('v, 'l) LLVMContext \<Rightarrow> ValueLogicalOperation \<Rightarrow> ('v, 'l) Value \<Rightarrow>
   ('v, 'l) Value \<Rightarrow> (('v, 'l) Value, 'v, 'l) result" where
  "LogicalOperationImpl X s op source1 source2 =
     (case GetLayout source1 of
        Inl e \<Rightarrow> Inl (e, s)
      | Inr source1Layout \<Rightarrow>
          (case GetLayout source2 of
             Inl e \<Rightarrow> Inl (e, s)
           | Inr source2Layout \<Rightarrow>
               if source1Layout \<noteq> source2Layout then Inl (InputException sizeMismatch, s)
               else if IsConstant source1 \<and> IsConstant source2 then
                 ComputeContext_LogicalOperation X s op source1 source2
               else
                 (let isFp = (IsFloatingPoint X source1 \<or> IsFloatingPointPointer X source1);
                      comparisonOp = LogicalOperation_comparisonOp op isFp
                  in case underlyingData source1 of
                       UndefinedData \<Rightarrow> Inl (LogicException illegalState, s)
                     | Emittable source1Data \<Rightarrow>
                         (case underlyingData source2 of
                            UndefinedData \<Rightarrow> Inl (LogicException illegalState, s)
                          | source2Data \<Rightarrow>
                              LogicalOperation_loop X s comparisonOp source1Layout source2Layout
                                (Emittable source1Data) source2Data)
                     | ConstantPointer t a off \<Rightarrow>
                         LogicalOperation_loop X s comparisonOp source1Layout source2Layout
                           (ConstantPointer t a off) (underlyingData source2))))"

subsection \<open>What the emitted comparisons compute\<close>





section \<open>A concrete collaborator for the examples\<close>

text \<open>
  A row-major layout, given by its active size, over integer elements; it instantiates the
  parameters of the model in the closed examples below.
\<close>

definition rowMajorOffset :: "int list \<Rightarrow> int list \<Rightarrow> int" where
  "rowMajorOffset extent coordinate = foldl (\<lambda>acc (c, d). acc * d + c) 0 (zip coordinate extent)"

definition exampleIntrinsic :: "(int, int list) FunctionDeclaration" where
  "exampleIntrinsic =
     \<lparr>GetFunctionName = ''pow'',
      GetParameterTypes =
        [\<lparr>underlyingData = UndefinedData, valueType = (Double, 1), layout = None\<rparr>,
         \<lparr>underlyingData = UndefinedData, valueType = (Double, 1), layout = None\<rparr>],
      GetReturnType =
        Some \<lparr>underlyingData = UndefinedData, valueType = (Double, 1), layout = None\<rparr>\<rparr>"

definition exampleUnary :: "string \<Rightarrow> (int, int list) FunctionDeclaration" where
  "exampleUnary name =
     \<lparr>GetFunctionName = name,
      GetParameterTypes =
        [\<lparr>underlyingData = UndefinedData, valueType = (Double, 1), layout = None\<rparr>],
      GetReturnType =
        Some \<lparr>underlyingData = UndefinedData, valueType = (Double, 1), layout = None\<rparr>\<rparr>"

definition exampleIntrinsicDeclaration :: "Intrinsic \<Rightarrow> (int, int list) FunctionDeclaration" where
  "exampleIntrinsicDeclaration i =
     (case i of
        AbsFunction \<Rightarrow> exampleUnary ''abs''
      | CosFunction \<Rightarrow> exampleUnary ''cos''
      | ExpFunction \<Rightarrow> exampleUnary ''exp''
      | LogFunction \<Rightarrow> exampleUnary ''log''
      | MaxNumFunction \<Rightarrow> exampleIntrinsic\<lparr>GetFunctionName := ''max''\<rparr>
      | MinNumFunction \<Rightarrow> exampleIntrinsic\<lparr>GetFunctionName := ''min''\<rparr>
      | PowFunction \<Rightarrow> exampleIntrinsic
      | SinFunction \<Rightarrow> exampleUnary ''sin''
      | SqrtFunction \<Rightarrow> exampleUnary ''sqrt''
      | TanhFunction \<Rightarrow> exampleUnary ''tanh'')"

definition exampleDeclaration :: "(int, int list) FunctionDeclaration" where
  "exampleDeclaration =
     \<lparr>GetFunctionName = ''g'',
      GetParameterTypes =
        [\<lparr>underlyingData = UndefinedData, valueType = (Int32, 1), layout = Some [4]\<rparr>],
      GetReturnType = None\<rparr>"

definition exampleBody ::
  "(int, int list) Value list \<Rightarrow> (int, int list) LLVMContext \<Rightarrow>
   ((int, int list) Value option, int, int list) result" where
  "exampleBody args s =
     Inr (None, s\<lparr>emitted := emitted s @ [Store (Argument 0) (LiteralInt 1)]\<rparr>)"

definition rowMajor :: "(int, int list) Ext" where
  "rowMajor =
     \<lparr>GetActiveSize = (\<lambda>l. map word_of_int l),
      GetLogicalCoordinates = (\<lambda>l c. c),
      GetLogicalEntryOffset = (\<lambda>l c. rowMajorOffset l (map sint c)),
      GetEntryOffset = (\<lambda>l c. rowMajorOffset l (map sint c)),
      IsContiguous = (\<lambda>l. True),
      GetMemorySize = (\<lambda>l. nat (prod_list l)),
      NumElements = (\<lambda>l. nat (prod_list l)),
      ScalarLayout = [1],
      IsFloatingPoint = (\<lambda>v. GetBaseType v = Float \<or> GetBaseType v = Double),
      IsFloatingPointPointer = (\<lambda>v. False),
      GetType = (\<lambda>e. (Int32, 1)),
      IntrinsicDeclaration = exampleIntrinsicDeclaration,
      booleanElement = (\<lambda>b. if b then 1 else 0),
      computeCopyData = (\<lambda>src dst. Inr (dst\<lparr>underlyingData := underlyingData src\<rparr>)),
      computeBinaryOperation = (\<lambda>op dst src. Inr dst),
      computeOffset = (\<lambda>begin index. Inr begin),
      computeCast = (\<lambda>v type. Inr v),
      computeCall = (\<lambda>decl args. Inr None)\<rparr>"

text \<open>
  The same with one element of padding after every row of every dimension: a layout
  that is not contiguous.
\<close>

definition padded :: "(int, int list) Ext" where
  "padded =
     rowMajor\<lparr>GetLogicalEntryOffset := (\<lambda>l c. rowMajorOffset (map (\<lambda>d. d + 1) l) (map sint c)),
              GetEntryOffset := (\<lambda>l c. rowMajorOffset (map (\<lambda>d. d + 1) l) (map sint c)),
              IsContiguous := (\<lambda>l. False),
              GetMemorySize := (\<lambda>l. nat (prod_list (map (\<lambda>d. d + 1) l)))\<rparr>"


definition exampleContext :: "(int, int list) LLVMContext" where
  "exampleContext =
     \<lparr>moduleName = ''m'',
      functionStack = [''f''],
      promotedConstantStack = [[], []],
      globals = Map.empty,
      definedFunctions = Map.empty,
      constantData = [0 \<mapsto> (Int32, [1, 2, 3, 4]), 1 \<mapsto> (Int32, [1, 2, 3, 4])],
      nextConstant = 2,
      nextVariable = 3,
      emitted = []\<rparr>"


definition exampleConstant :: "nat \<Rightarrow> int \<Rightarrow> (int, int list) Value" where
  "exampleConstant a off =
     \<lparr>underlyingData = ConstantPointer Int32 a off, valueType = (Int32, 1), layout = Some [4]\<rparr>"


definition exampleEmittable ::
  "ValueType \<Rightarrow> int \<Rightarrow> int LLVMValue \<Rightarrow> (int, int list) Value" where
  "exampleEmittable t level e =
     \<lparr>underlyingData = Emittable e, valueType = (t, level), layout = Some [4]\<rparr>"



definition exampleDeclared :: "(int, int list) Value" where
  "exampleDeclared =
     \<lparr>underlyingData = UndefinedData, valueType = (Int32, 1), layout = Some [4]\<rparr>"


definition exampleThrowingBody ::
  "(int, int list) Value list \<Rightarrow> (int, int list) LLVMContext \<Rightarrow>
   ((int, int list) Value option, int, int list) result" where
  "exampleThrowingBody args s = Inl (LogicException notImplemented, s)"

definition exampleUntyped :: "(int, int list) FunctionDeclaration" where
  "exampleUntyped =
     \<lparr>GetFunctionName = ''h'',
      GetParameterTypes =
        [\<lparr>underlyingData = UndefinedData, valueType = (Undefined, 0), layout = None\<rparr>],
      GetReturnType = None\<rparr>"



definition exampleRows :: "int LLVMValue \<Rightarrow> (int, int list) Value" where
  "exampleRows e = \<lparr>underlyingData = Emittable e, valueType = (Int32, 1), layout = Some [2, 2]\<rparr>"

section \<open>Lemmas\<close>

lemma ForLoop_Cons:
  "length c = length ds \<Longrightarrow>
   ForLoop (x # c) (d # ds) =
     map ((#) x) (ForLoop c ds) @
       (if sint (x + 1) \<ge> sint d then []
        else ForLoop ((x + 1) # replicate (length ds) 0) (d # ds))"
proof (induction c ds rule: ForLoop.induct)
  case (1 c ds)
  note len = \<open>length c = length ds\<close>
  show ?case
  proof (cases "odometer c ds")
    case (Pair b t)
    have lt: "length t = length ds"
      using odometer_length [OF len] Pair by (simp add: len)
    show ?thesis
    proof (cases b)
      case True
      have step: "IncrementMemoryCoordinate c ds = Some (True, t)"
        using Pair True by (simp add: IncrementMemoryCoordinate_odometer len)
      have ih: "ForLoop (x # t) (d # ds) =
          map ((#) x) (ForLoop t ds) @
          (if sint (x + 1) \<ge> sint d then []
           else ForLoop ((x + 1) # replicate (length ds) 0) (d # ds))"
        using "1.IH" [OF step refl refl lt] by simp
      have l: "ForLoop c ds = c # ForLoop t ds"
        by (subst ForLoop.simps) (simp add: step)
      have "ForLoop (x # c) (d # ds) = (x # c) # ForLoop (x # t) (d # ds)"
        by (subst ForLoop.simps)
           (simp add: IncrementMemoryCoordinate_odometer len Pair True)
      then show ?thesis by (simp add: ih l)
    next
      case False
      have t: "t = replicate (length ds) 0"
        using odometer_False_zero [OF len, of t] Pair False by (simp add: len)
      have l: "ForLoop c ds = [c]"
        by (subst ForLoop.simps)
           (simp add: IncrementMemoryCoordinate_odometer len Pair False)
      have "ForLoop (x # c) (d # ds) = (x # c) #
          (if sint (x + 1) \<ge> sint d then []
           else ForLoop ((x + 1) # replicate (length ds) 0) (d # ds))"
        by (subst ForLoop.simps)
           (simp add: IncrementMemoryCoordinate_odometer len Pair False t)
      then show ?thesis by (simp add: l)
    qed
  qed
qed

lemma ForLoop_row:
  "sint x < 2147483647 \<Longrightarrow>
   ForLoop (x # replicate (length ds) 0) (d # ds) =
     concat (map (\<lambda>y. map ((#) y) (ForLoop (replicate (length ds) 0) ds))
               (x # map word_of_int [sint x + 1..sint d - 1]))"
proof (induction "nat (sint d - 1 - sint x)" arbitrary: x)
  case 0
  then have "sint (x + 1) \<ge> sint d" by (simp add: sint_succ)
  moreover from 0 have "[sint x + 1..sint d - 1] = []" by simp
  ultimately show ?case by (simp add: ForLoop_Cons)
next
  case (Suc n)
  from Suc.hyps(2) have lt: "sint x + 1 < sint d" by simp
  have sx: "sint (x + 1) = sint x + 1" using Suc.prems by (rule sint_succ)
  have nc: "\<not> sint (x + 1) \<ge> sint d" using lt sx by simp
  have n: "n = nat (sint d - 1 - sint (x + 1))" using Suc.hyps(2) sx by simp
  have b: "sint (x + 1) < 2147483647" using lt sx sint_bounds32 [of d] by simp
  have u: "[sint x + 1..sint d - 1] = (sint x + 1) # [sint (x + 1) + 1..sint d - 1]"
    using lt by (simp add: upto_rec1 sx)
  from Suc.hyps(1) [OF n b] nc show ?case
    by (simp add: ForLoop_Cons u)
qed

lemma coordinates_product_lists:
  "coordinates ds =
     product_lists (map (\<lambda>d. map word_of_int [0..max (sint d) 1 - 1]) ds)"
proof (induction ds)
  case Nil
  show ?case
    unfolding coordinates_def
    by (subst ForLoop.simps)
       (simp add: IncrementMemoryCoordinate_def IncrementMemoryCoordinateImpl.simps)
next
  case (Cons d ds)
  have "[0..max (sint d) 1 - 1] = 0 # [0 + 1..sint d - 1]"
    by (subst upto_rec1) (auto simp: max_def)
  then have "map word_of_int [0..max (sint d) 1 - 1] =
      (0 :: int32) # map word_of_int [sint (0 :: int32) + 1..sint d - 1]" by simp
  with Cons show ?case
    unfolding coordinates_def
    by (simp add: ForLoop_row del: upto.simps)
qed

lemma coordinates_nonempty: "coordinates ds \<noteq> []"
  unfolding coordinates_def by (subst ForLoop.simps) (simp split: option.splits)

lemma foldl_snoc_map: "foldl (\<lambda>s c. s @ [f c]) acc xs = acc @ map f xs"
  by (induction xs arbitrary: acc) auto

lemma IncrementMemoryCoordinate_snoc:
  assumes "length q = length mq"
  shows "IncrementMemoryCoordinate (q @ [x]) (mq @ [M]) =
          (if sint (x + 1) \<ge> sint M
           then map_option (\<lambda>(b, q'). (b, q' @ [0])) (IncrementMemoryCoordinate q mq)
           else Some (True, q @ [x + 1]))"
  using assms
  by (simp add: IncrementMemoryCoordinate_odometer odometer_snoc split: prod.splits)

lemma GlobalAllocate_collision:
  assumes "GetScopeAdjustedName s scope name = Inr q" and "globals s q \<noteq> None"
  shows "GlobalAllocateImpl_data X s scope name dat l = Inl (InputException invalidArgument, s)"
    and "GlobalAllocateImpl_type X s scope name type l = Inl (InputException invalidArgument, s)"
  using assms by (simp_all add: GlobalAllocateImpl_data_def GlobalAllocateImpl_type_def)

lemma GetScopeAdjustedName_state:
  "moduleName s' = moduleName s \<Longrightarrow> functionStack s' = functionStack s \<Longrightarrow>
   GetScopeAdjustedName s' scope name = GetScopeAdjustedName s scope name"
  by (simp add: GetScopeAdjustedName_def GetCurrentFunctionScopedName_def
      GetGlobalScopedName_def split: GlobalAllocationScope.splits list.splits)


lemma SetData_simps [simp]:
  "underlyingData (SetData v d) = d"
  "valueType (SetData v d) = valueType v"
  "layout (SetData v d) = layout v"
  by (simp_all add: SetData_def)

lemma IsConstant_Emittable [simp]: "\<not> IsConstant (SetData v (Emittable e))"
  by (simp add: IsConstant_def)

lemma EnsureEmittable_found:
  assumes "underlyingData v = ConstantPointer t a off" "IsDefined v" "\<not> IsEmpty X v"
    and "functionStack s = f # fs" "promotedConstantStack s = ps # rest"
    and "constantData s a = Some (t', elems)"
    and "find (\<lambda>desc. fst desc = a) ps = Some d"
  shows "EnsureEmittable X s v =
      Inr (SetData v (Emittable (PointerOffset (snd d) (LiteralInt off))), s)"
  using assms
  by (simp add: EnsureEmittable_def Realize_def HasBeenPromoted_def GetConstantData_def
      GetFunctionEmitter_def IsConstant_def)

lemma EnsureEmittable_fresh:
  assumes "underlyingData v = ConstantPointer t a off" "IsDefined v" "\<not> IsEmpty X v"
    and "functionStack s = f # fs" "promotedConstantStack s = ps # rest"
    and "constantData s a = Some (t', elems)"
    and "find (\<lambda>desc. fst desc = a) ps = None"
  shows "\<exists>s1. EnsureEmittable X s v =
      Inr (SetData v (Emittable (PointerOffset (Variable (nextVariable s)) (LiteralInt off))), s1)
      \<and> functionStack s1 = functionStack s
      \<and> promotedConstantStack s1 = (ps @ [(a, Variable (nextVariable s))]) # rest
      \<and> constantData s1 = constantData s
      \<and> nextVariable s1 = Suc (nextVariable s)"
  using assms
  by (simp add: EnsureEmittable_def Realize_def HasBeenPromoted_def GetConstantData_def
      GetFunctionEmitter_def IsConstant_def PromoteConstantData_def Let_def)

lemma find_snoc_None:
  "find P xs = None \<Longrightarrow> find P (xs @ [x]) = (if P x then Some x else None)"
  by (induction xs) (auto split: if_splits)

lemma find_fst_Some: "find (\<lambda>desc. fst desc = a) xs = Some d \<Longrightarrow> fst d = a"
  by (induction xs) (auto split: if_splits)

lemma find_fst_None: "(find (\<lambda>desc. fst desc = a) xs = None) = (a \<notin> fst ` set xs)"
  by (induction xs) auto


lemma CreateFunctionImpl_intrinsic:
  "IsIntrinsic X decl \<Longrightarrow>
   CreateFunctionImpl X s decl fn = Inl (InputException invalidArgument, s)"
  by (simp add: CreateFunctionImpl_def)

lemma CreateFunctionImpl_cached:
  "\<not> IsIntrinsic X decl \<Longrightarrow> definedFunctions s (declarationKey decl) = Some existing \<Longrightarrow>
   CreateFunctionImpl X s decl fn = Inr (existing, s)"
  by (simp add: CreateFunctionImpl_def)

lemma CreateFunction_end_registers:
  "CreateFunction_end s decl returned = Inr (callable, s') \<Longrightarrow>
   definedFunctions s' (declarationKey decl) = Some callable"
  by (auto simp: CreateFunction_end_def Let_def)

lemma CreateFunction_scope_body:
  assumes "CreateFunction_scope X s decl fn rt ats = Inr (callable, s')"
  shows "\<exists>r sb sc ret.
      fn (argumentValues (GetParameterTypes decl))
         ((FunctionScope_enter s (GetFunctionName decl) rt ats)
            \<lparr>emitted := emitted (FunctionScope_enter s (GetFunctionName decl) rt ats) @
                [SetAttributeForArguments]\<rparr>) = Inr (r, sb)
    \<and> ((r = None \<and> sc = sb \<and> ret = None)
        \<or> (\<exists>rv e. r = Some rv \<and> EnsureEmittable X sb rv = Inr (e, sc)
              \<and> (\<exists>llvmValue. underlyingData e = Emittable llvmValue \<and> ret = Some llvmValue)))
    \<and> CreateFunction_end sc decl ret = Inr (callable, s')"
  using assms
  by (auto simp: CreateFunction_scope_def Let_def
      split: sum.splits prod.splits option.splits UnderlyingData.splits)




lemma BinaryOperationImpl_undefined_source:
  "\<not> IsDefined source \<Longrightarrow>
   BinaryOperationImpl X s op destination source = Inl (InputException invalidArgument, s)"
  by (simp add: BinaryOperationImpl_def)

lemma doWhile_emit:
  "doWhile (\<lambda>c s. Inr (emit (g c) s)) cs s = Inr (s\<lparr>emitted := emitted s @ map g cs\<rparr>)"
  by (induction cs arbitrary: s) (simp_all add: emit_def)

lemma doWhile_emitted:
  "doWhile (\<lambda>c s. Inr (s\<lparr>emitted := emitted s @ [g c]\<rparr>)) cs (s :: ('v, 'l) LLVMContext) =
     Inr (s\<lparr>emitted := emitted s @ map g cs\<rparr>)"
  using doWhile_emit [of g cs s] by (simp add: emit_def)

lemma BinaryOperation_step_Emittable:
  "BinaryOperation_step X operator destValue (Emittable srcValue) l =
     (\<lambda>c s. Inr (emit (SetValueAt destValue (LiteralInt (GetEntryOffset X l c))
        (Operator operator (ValueAt destValue (LiteralInt (GetEntryOffset X l c)))
           (ValueAt srcValue (LiteralInt (GetEntryOffset X l c))))) s))"
  by (intro ext) (simp add: BinaryOperation_step_def Let_def)

lemma BinaryOperation_emit_Emittable:
  assumes "TypeCompatible d source" "layout d = Some l" "layout source = Some l"
    and "functionStack s \<noteq> []" "EnsureEmittable X s d = Inr (d1, s1)"
    and "underlyingData d1 = Emittable destValue"
    and "underlyingData source = Emittable srcValue"
    and "BinaryOperation_opFn op (IsFloatingPoint X d1) = Inr operator"
  shows "BinaryOperation_emit X s op d source =
     Inr (d, s1\<lparr>emitted := emitted s1 @
       map (\<lambda>c. SetValueAt destValue (LiteralInt (GetEntryOffset X l c))
              (Operator operator (ValueAt destValue (LiteralInt (GetEntryOffset X l c)))
                 (ValueAt srcValue (LiteralInt (GetEntryOffset X l c)))))
           (coordinates (GetActiveSize X l))\<rparr>)"
  using assms
  by (simp add: BinaryOperation_emit_def GetLayout_def GetFunctionEmitter_def ToLLVMValue_def
      withValue_def BinaryOperation_step_Emittable doWhile_emit split: list.splits)

lemma example_allocate:
  "AllocateImpl rowMajor s Int32 [4] =
     (case functionStack s of
        [] \<Rightarrow> Inl (UndefinedBehaviour, s)
      | f # fs \<Rightarrow>
          Inr (exampleEmittable Int32 1 (Variable (nextVariable s)),
               s\<lparr>nextVariable := Suc (nextVariable s),
                 emitted := emitted s @ [MemorySet (Variable (nextVariable s)) 4]\<rparr>))"
  by (simp add: AllocateImpl_def GetFunctionEmitter_def ValueTypeToLLVMType_def
      EmittableValue_def exampleEmittable_def rowMajor_def Let_def split: list.splits)




lemma AllocateImpl_ok:
  assumes "functionStack s \<noteq> []" "type \<noteq> Undefined"
  shows "AllocateImpl X s type l =
     Inr (EmittableValue X (Variable (nextVariable s)) l,
          s\<lparr>nextVariable := Suc (nextVariable s),
            emitted := emitted s @ [MemorySet (Variable (nextVariable s)) (GetMemorySize X l)]\<rparr>)"
  using assms
  by (simp add: AllocateImpl_def GetFunctionEmitter_def ValueTypeToLLVMType_def Let_def
      split: list.splits)

lemma intrinsicVariableType_eq:
  "intrinsicVariableType t = (if t = Float then VarFloat else VarDouble)"
  by (cases t) (simp_all add: intrinsicVariableType_def)

lemma SimpleNumericalFunctionIntrinsic_emits:
  assumes "GetBaseType v \<noteq> Boolean" "GetBaseType v \<noteq> Undefined"
    and "underlyingData v = Emittable inp" "functionStack s \<noteq> []"
    and "l = (case layout v of Some l \<Rightarrow> l | None \<Rightarrow> ScalarLayout X)"
  shows "SimpleNumericalFunctionIntrinsic X name s [v] =
     Inr (EmittableValue X (Variable (nextVariable s)) l,
          s\<lparr>nextVariable := Suc (nextVariable s),
            emitted := emitted s @
              MemorySet (Variable (nextVariable s)) (GetMemorySize X l) #
              map (\<lambda>c. SetValueAt (Variable (nextVariable s))
                     (LiteralInt (GetLogicalEntryOffset X l (GetLogicalCoordinates X l c)))
                     (Call (RuntimeFunction name
                              (if GetBaseType v = Float then VarFloat else VarDouble))
                        [if IsFloatingPoint X v \<or> IsFloatingPointPointer X v
                         then ValueAt inp
                                (LiteralInt (GetLogicalEntryOffset X l (GetLogicalCoordinates X l c)))
                         else CastValue Double
                                (ValueAt inp
                                  (LiteralInt (GetLogicalEntryOffset X l
                                     (GetLogicalCoordinates X l c))))]))
                (coordinates (GetActiveSize X l))\<rparr>)"
  using assms(1,2,3)
  by (simp add: SimpleNumericalFunctionIntrinsic_def AllocateImpl_ok [OF assms(4)]
      assms(5) [symmetric] Let_def EmittableValue_def GetLayout_def ToLLVMValue_def
      withValue_def doWhile_emit intrinsicOperand_def intrinsicVariableType_eq)

lemma PowFunctionIntrinsic_emits:
  assumes "GetBaseType value1 = GetBaseType value2"
    and "GetBaseType value1 \<noteq> Boolean" "GetBaseType value1 \<noteq> Undefined"
    and "\<not> (IsConstrained value2 \<and> layout value2 \<noteq> Some (ScalarLayout X))"
    and "underlyingData value1 = Emittable base" "underlyingData value2 = Emittable exponent"
    and "functionStack s \<noteq> []"
    and "l = (case layout value1 of Some l \<Rightarrow> l | None \<Rightarrow> ScalarLayout X)"
  shows "PowFunctionIntrinsic X s [value1, value2] =
     Inr (EmittableValue X (Variable (nextVariable s)) l,
          s\<lparr>nextVariable := Suc (nextVariable s),
            emitted := emitted s @
              MemorySet (Variable (nextVariable s)) (GetMemorySize X l) #
              map (\<lambda>c. SetValueAt (Variable (nextVariable s))
                     (LiteralInt (GetLogicalEntryOffset X l (GetLogicalCoordinates X l c)))
                     (Call (RuntimeFunction ''pow''
                              (if GetBaseType value1 = Float then VarFloat else VarDouble))
                        [if IsFloatingPoint X value1 \<or> IsFloatingPointPointer X value1
                         then ValueAt base
                                (LiteralInt (GetLogicalEntryOffset X l (GetLogicalCoordinates X l c)))
                         else CastValue Double
                                (ValueAt base
                                  (LiteralInt (GetLogicalEntryOffset X l
                                     (GetLogicalCoordinates X l c)))),
                         if IsFloatingPoint X value2 \<or> IsFloatingPointPointer X value2
                         then ValueAt exponent (LiteralInt 0)
                         else CastValue Double (ValueAt exponent (LiteralInt 0))]))
                (coordinates (GetActiveSize X l))\<rparr>)"
  using assms(1,2,3,4,5,6)
  by (simp add: PowFunctionIntrinsic_def AllocateImpl_ok [OF assms(7)]
      assms(8) [symmetric] Let_def EmittableValue_def GetLayout_def ToLLVMValue_def
      withValue_def doWhile_emit intrinsicOperand_def intrinsicVariableType_eq)





lemma MaxMinIntrinsicFunction_emits:
  assumes "GetBaseType v \<noteq> Boolean" "GetBaseType v \<noteq> Undefined"
    and "underlyingData v = Emittable inp" "functionStack s \<noteq> []"
    and "layout v = Some lv"
  shows "MaxMinIntrinsicFunction X intrinsic s [v] =
          Inr (EmittableValue X (Variable (nextVariable s)) (ScalarLayout X),
          s\<lparr>nextVariable := Suc (nextVariable s),
            emitted := emitted s @
              MemorySet (Variable (nextVariable s)) (GetMemorySize X (ScalarLayout X)) #
              SetValueAt (Variable (nextVariable s)) (LiteralInt 0)
                (ValueAt inp (LiteralInt 0)) #
              map (\<lambda>c. SetValueAt (Variable (nextVariable s)) (LiteralInt 0)
                     (Select
                        (Comparison (MaxMin_cmpOp intrinsic (GetBaseType v))
                           (ValueAt (Variable (nextVariable s)) (LiteralInt 0))
                           (ValueAt inp
                              (LiteralInt (GetLogicalEntryOffset X lv
                                 (GetLogicalCoordinates X lv c)))))
                        (ValueAt (Variable (nextVariable s)) (LiteralInt 0))
                        (ValueAt inp
                           (LiteralInt (GetLogicalEntryOffset X lv
                              (GetLogicalCoordinates X lv c))))))
                (coordinates (GetActiveSize X lv))\<rparr>)"
  using assms(1,2,3,5)
  by (simp add: MaxMinIntrinsicFunction_def AllocateImpl_ok [OF assms(4)]
      Let_def EmittableValue_def GetLayout_def ToLLVMValue_def
      withValue_def doWhile_emitted emit_def)


lemma readConstant_emitted [simp]:
  "readConstant (s\<lparr>emitted := e\<rparr>) a off i = readConstant s a off i"
  by (simp add: readConstant_def)

lemma doWhile_CopyData_constantSource:
  assumes "\<forall>c\<in>set cs. readConstant s a off (GetEntryOffset X l c) = Inr (elem c)"
  shows "doWhile (CopyData_constantSource X destValue l a off) cs s =
     Inr (s\<lparr>emitted := emitted s @
       map (\<lambda>c. Store (PointerOffset destValue (LiteralInt (GetEntryOffset X l c)))
              (Literal (elem c))) cs\<rparr>)"
  using assms
proof (induction cs arbitrary: s)
  case Nil
  then show ?case by simp
next
  case (Cons c cs)
  let ?s1 = "s\<lparr>emitted := emitted s @
      [Store (PointerOffset destValue (LiteralInt (GetEntryOffset X l c))) (Literal (elem c))]\<rparr>"
  from Cons.prems have st: "CopyData_constantSource X destValue l a off c s = Inr ?s1"
    by (simp add: CopyData_constantSource_def Let_def emit_def)
  from Cons.prems have "\<forall>c\<in>set cs. readConstant ?s1 a off (GetEntryOffset X l c) = Inr (elem c)"
    by simp
  from Cons.IH [OF this] st show ?case by simp
qed

lemma doWhile_CopyData_emittableSource:
  "doWhile (CopyData_emittableSource X srcValue destValue l) cs s =
     Inr (s\<lparr>emitted := emitted s @
       map (\<lambda>c. Store (PointerOffset destValue (LiteralInt (GetEntryOffset X l c)))
              (Load (PointerOffset srcValue (LiteralInt (GetEntryOffset X l c))))) cs\<rparr>)"
proof -
  have "CopyData_emittableSource X srcValue destValue l =
      (\<lambda>c s. Inr (emit (Store (PointerOffset destValue (LiteralInt (GetEntryOffset X l c)))
              (Load (PointerOffset srcValue (LiteralInt (GetEntryOffset X l c))))) s))"
    by (intro ext) (simp add: CopyData_emittableSource_def Let_def)
  then show ?thesis by (simp add: doWhile_emit)
qed

lemma doWhile_LogicalOperation_Emittable:
  "doWhile (LogicalOperation_step X s comparisonOp l1 l2 (Emittable llvmOp1) (Emittable llvmOp2))
     cs r0 =
   Inr (foldl (\<lambda>result c. LogicalAnd result
          (Comparison comparisonOp
             (ValueAt llvmOp1
                (LiteralInt (GetLogicalEntryOffset X l1 (GetLogicalCoordinates X l1 c))))
             (ValueAt llvmOp2
                (LiteralInt (GetLogicalEntryOffset X l2 (GetLogicalCoordinates X l1 c))))))
        r0 cs)"
  by (induction cs arbitrary: r0)
     (simp_all add: LogicalOperation_step_def LogicalOperation_operand_def Let_def)

lemma BinaryOperationImpl_emitted:
  assumes "IsDefined source"
    and "(IsDefined destination \<and> \<not> (IsConstant source \<and> IsConstant destination)
               \<and> d = destination \<and> s0 = s)
            \<or> (\<not> IsDefined destination
               \<and> AllocateImpl X s (GetBaseType source) l = Inr (d, s0))"
    and "layout source = Some l"
  shows "BinaryOperationImpl X s op destination source = BinaryOperation_emit X s0 op d source"
  using assms by (auto simp: BinaryOperationImpl_def GetLayout_def)

lemma foldl_emit:
  "foldl (\<lambda>s i. emit (g i) s) s xs = s\<lparr>emitted := emitted s @ map g xs\<rparr>"
  by (induction xs arbitrary: s) (simp_all add: emit_def)

lemma EnsureEmittable_not_constant:
  "\<not> IsConstant v \<Longrightarrow> EnsureEmittable X s v = Inr (v, s)"
  by (simp add: EnsureEmittable_def)

lemma CastImpl_emits:
  assumes "underlyingData v = Emittable data" "functionStack s \<noteq> []" "type \<noteq> Undefined"
    and "l = (case layout v of Some l \<Rightarrow> l | None \<Rightarrow> ScalarLayout X)"
  shows "CastImpl X s v type =
     Inr (EmittableValue X (Variable (nextVariable s)) l,
          s\<lparr>nextVariable := Suc (nextVariable s),
            emitted := emitted s @
              MemorySet (Variable (nextVariable s)) (GetMemorySize X l) #
              map (\<lambda>index. SetValueAt (Variable (nextVariable s)) (LiteralInt (int index))
                     (CastValue type (ValueAt data (LiteralInt (int index)))))
                [0..<GetMemorySize X l]\<rparr>)"
  using assms(1,2)
  by (simp add: CastImpl_def IsConstant_def ToLLVMValue_def GetFunctionEmitter_def
      AllocateImpl_ok [OF assms(2,3)] assms(4) [symmetric] EmittableValue_def GetLayout_def
      foldl_emit split: list.splits)

lemma BinaryOperation_emit_checked:
  assumes "TypeCompatible d source" "layout d = Some l" "layout source = Some l"
    and "functionStack s \<noteq> []" "EnsureEmittable X s d = Inr (d1, s1)"
  shows "BinaryOperation_emit X s op d source =
     (case underlyingData source of
        UndefinedData \<Rightarrow> Inr (d, s1)
      | ConstantPointer Boolean a off \<Rightarrow> Inl (LogicException notImplemented, s1)
      | sourceData \<Rightarrow>
          (case BinaryOperation_opFn op (IsFloatingPoint X d1) of
             Inl e \<Rightarrow> Inl (e, s1)
           | Inr operator \<Rightarrow>
               (case ToLLVMValue d1 of
                  Inl e \<Rightarrow> Inl (e, s1)
                | Inr destValue \<Rightarrow>
                    withValue d
                      (doWhile (BinaryOperation_step X operator destValue sourceData l)
                         (coordinates (GetActiveSize X l)) s1))))"
  using assms
  by (simp add: BinaryOperation_emit_def GetLayout_def GetFunctionEmitter_def
      split: list.splits)

lemma doWhile_BinaryOperation_step_constant:
  assumes "\<forall>c\<in>set cs. readConstant s a off (GetEntryOffset X l c) = Inr (elem c)"
  shows "doWhile (BinaryOperation_step X operator destValue (ConstantPointer t a off) l) cs s =
     Inr (s\<lparr>emitted := emitted s @
       map (\<lambda>c. SetValueAt destValue (LiteralInt (GetEntryOffset X l c))
              (Operator operator (ValueAt destValue (LiteralInt (GetEntryOffset X l c)))
                 (Literal (elem c)))) cs\<rparr>)"
  using assms
proof (induction cs arbitrary: s)
  case Nil
  then show ?case by simp
next
  case (Cons c cs)
  let ?s1 = "s\<lparr>emitted := emitted s @
      [SetValueAt destValue (LiteralInt (GetEntryOffset X l c))
         (Operator operator (ValueAt destValue (LiteralInt (GetEntryOffset X l c)))
            (Literal (elem c)))]\<rparr>"
  from Cons.prems have st:
    "BinaryOperation_step X operator destValue (ConstantPointer t a off) l c s = Inr ?s1"
    by (simp add: BinaryOperation_step_def Let_def emit_def)
  from Cons.prems have "\<forall>c\<in>set cs. readConstant ?s1 a off (GetEntryOffset X l c) = Inr (elem c)"
    by simp
  from Cons.IH [OF this] st show ?case by simp
qed

lemma doWhile_LogicalOperation_operands:
  assumes "\<forall>c\<in>set cs.
      LogicalOperation_operand s d1
        (GetLogicalEntryOffset X l1 (GetLogicalCoordinates X l1 c)) = Inr (operand1 c)
    \<and> LogicalOperation_operand s d2
        (GetLogicalEntryOffset X l2 (GetLogicalCoordinates X l1 c)) = Inr (operand2 c)"
  shows "doWhile (LogicalOperation_step X s comparisonOp l1 l2 d1 d2) cs r0 =
     Inr (foldl (\<lambda>result c. LogicalAnd result
            (Comparison comparisonOp (operand1 c) (operand2 c))) r0 cs)"
  using assms
  by (induction cs arbitrary: r0) (simp_all add: LogicalOperation_step_def Let_def)

lemma LogicalOperationImpl_emitted:
  assumes "layout source1 = Some l" "layout source2 = Some l"
    and "\<not> (IsConstant source1 \<and> IsConstant source2)"
    and "underlyingData source1 \<noteq> UndefinedData" "underlyingData source2 \<noteq> UndefinedData"
    and "functionStack s \<noteq> []"
  shows "LogicalOperationImpl X s op source1 source2 =
     LogicalOperation_loop X s
       (LogicalOperation_comparisonOp op
          (IsFloatingPoint X source1 \<or> IsFloatingPointPointer X source1))
       l l (underlyingData source1) (underlyingData source2)"
  using assms
  by (auto simp: LogicalOperationImpl_def GetLayout_def Let_def split: UnderlyingData.splits)

section \<open>Properties\<close>

text \<open>
  C1. Inside a function scope, materializing (\<open>EnsureEmittable\<close>) a constant Value that is
  defined, non-empty and points into a buffer of the interpreting backend succeeds, and
  materializing it again succeeds with a handle on the same backend storage and changes
  nothing: the second materialization finds the record by the address of the constant
  buffer. Each handle is the storage offset by the Value's own offset in its buffer. The
  lookup is by identity, not by value: a Value pointing into another buffer with equal
  contents, not promoted yet, gets a different storage.
\<close>

theorem C1_promotion_idempotent:
  assumes v: "underlyingData v = ConstantPointer t a off" "IsDefined v" "\<not> IsEmpty X v"
    and s: "functionStack s = f # fs" "promotedConstantStack s = ps # rest"
    and buf: "constantData s a = Some (t', elems)"
  shows "\<exists>st s1.
      EnsureEmittable X s v = Inr (SetData v (Emittable (PointerOffset st (LiteralInt off))), s1)
    \<and> EnsureEmittable X s1 v = Inr (SetData v (Emittable (PointerOffset st (LiteralInt off))), s1)
    \<and> find (\<lambda>desc. fst desc = a) (hd (promotedConstantStack s1)) = Some (a, st)
    \<and> (\<forall>v' t2 a' off'.
          underlyingData v' = ConstantPointer t2 a' off' \<and> IsDefined v' \<and> \<not> IsEmpty X v'
          \<and> a' \<noteq> a \<and> constantData s a' = constantData s a
          \<and> a \<notin> fst ` set ps \<and> a' \<notin> fst ` set ps \<longrightarrow>
          (\<exists>st' s2. EnsureEmittable X s1 v' =
               Inr (SetData v' (Emittable (PointerOffset st' (LiteralInt off'))), s2)
             \<and> st' \<noteq> st))"
proof (cases "find (\<lambda>desc. fst desc = a) ps")
  case (Some d)
  then have d: "d = (a, snd d)" using find_fst_Some [OF Some] by (cases d) simp
  have notfresh: "a \<in> fst ` set ps" using Some find_fst_None [of a ps] by auto
  have e: "EnsureEmittable X s v =
      Inr (SetData v (Emittable (PointerOffset (snd d) (LiteralInt off))), s)"
    by (rule EnsureEmittable_found [OF v s buf Some])
  show ?thesis
    apply (rule exI [of _ "snd d"], rule exI [of _ s])
    using e Some d notfresh s by auto
next
  case None
  from EnsureEmittable_fresh [OF v s buf None] obtain s1 where
    e1: "EnsureEmittable X s v =
      Inr (SetData v (Emittable (PointerOffset (Variable (nextVariable s)) (LiteralInt off))), s1)"
    and s1: "functionStack s1 = f # fs"
      "promotedConstantStack s1 = (ps @ [(a, Variable (nextVariable s))]) # rest"
    and c1: "constantData s1 = constantData s"
    and n1: "nextVariable s1 = Suc (nextVariable s)"
    using s by auto
  have f1: "find (\<lambda>desc. fst desc = a) (ps @ [(a, Variable (nextVariable s))]) =
      Some (a, Variable (nextVariable s))"
    using None by (simp add: find_snoc_None)
  have buf1: "constantData s1 a = Some (t', elems)" using buf c1 by simp
  have e2: "EnsureEmittable X s1 v =
      Inr (SetData v (Emittable (PointerOffset (Variable (nextVariable s)) (LiteralInt off))), s1)"
    using EnsureEmittable_found [OF v s1 buf1 f1] by simp
  have other: "\<exists>st' s2. EnsureEmittable X s1 v' =
               Inr (SetData v' (Emittable (PointerOffset st' (LiteralInt off'))), s2)
             \<and> st' \<noteq> Variable (nextVariable s)"
    if v': "underlyingData v' = ConstantPointer t2 a' off'" "IsDefined v'" "\<not> IsEmpty X v'"
      and ne: "a' \<noteq> a" and same: "constantData s a' = constantData s a"
      and fresh: "a' \<notin> fst ` set ps"
    for v' t2 a' off'
  proof -
    have buf': "constantData s1 a' = Some (t', elems)" using same buf c1 by simp
    have nf: "find (\<lambda>desc. fst desc = a') (ps @ [(a, Variable (nextVariable s))]) = None"
      using fresh ne by (simp add: find_fst_None [symmetric] find_snoc_None)
    from EnsureEmittable_fresh [OF v' s1 buf' nf] n1 show ?thesis by auto
  qed
  show ?thesis
    apply (rule exI [of _ "Variable (nextVariable s)"], rule exI [of _ s1])
    using e1 e2 s1 f1 other by auto
qed


theorem C1_promotion_idempotent_witness:
  "\<exists>st s1 st' s2.
      EnsureEmittable rowMajor exampleContext (exampleConstant 0 2) =
        Inr (SetData (exampleConstant 0 2) (Emittable (PointerOffset st (LiteralInt 2))), s1)
    \<and> EnsureEmittable rowMajor s1 (exampleConstant 0 2) =
        Inr (SetData (exampleConstant 0 2) (Emittable (PointerOffset st (LiteralInt 2))), s1)
    \<and> constantData exampleContext 1 = constantData exampleContext 0
    \<and> EnsureEmittable rowMajor s1 (exampleConstant 1 3) =
        Inr (SetData (exampleConstant 1 3) (Emittable (PointerOffset st' (LiteralInt 3))), s2)
    \<and> st' \<noteq> st"
proof -
  have v: "underlyingData (exampleConstant 0 2) = ConstantPointer Int32 0 2"
    "IsDefined (exampleConstant 0 2)" "\<not> IsEmpty rowMajor (exampleConstant 0 2)"
    by (simp_all add: exampleConstant_def IsDefined_def GetBaseType_def IsEmpty_def rowMajor_def)
  have s: "functionStack exampleContext = ''f'' # []"
    "promotedConstantStack exampleContext = [] # [[]]"
    "constantData exampleContext 0 = Some (Int32, [1, 2, 3, 4])"
    by (simp_all add: exampleContext_def)
  from C1_promotion_idempotent [OF v s] obtain st s1 where
    e: "EnsureEmittable rowMajor exampleContext (exampleConstant 0 2) =
        Inr (SetData (exampleConstant 0 2) (Emittable (PointerOffset st (LiteralInt 2))), s1)"
      "EnsureEmittable rowMajor s1 (exampleConstant 0 2) =
        Inr (SetData (exampleConstant 0 2) (Emittable (PointerOffset st (LiteralInt 2))), s1)"
    and o: "\<forall>v' t2 a' off'.
          underlyingData v' = ConstantPointer t2 a' off' \<and> IsDefined v'
          \<and> \<not> IsEmpty rowMajor v'
          \<and> a' \<noteq> 0 \<and> constantData exampleContext a' = constantData exampleContext 0
          \<and> 0 \<notin> fst ` set ([] :: (nat \<times> int LLVMValue) list)
          \<and> a' \<notin> fst ` set ([] :: (nat \<times> int LLVMValue) list) \<longrightarrow>
          (\<exists>st' s2. EnsureEmittable rowMajor s1 v' =
               Inr (SetData v' (Emittable (PointerOffset st' (LiteralInt off'))), s2)
             \<and> st' \<noteq> st)"
    by blast
  have v': "underlyingData (exampleConstant 1 3) = ConstantPointer Int32 1 3"
    "IsDefined (exampleConstant 1 3)" "\<not> IsEmpty rowMajor (exampleConstant 1 3)"
    "constantData exampleContext 1 = constantData exampleContext 0"
    by (simp_all add: exampleConstant_def IsDefined_def GetBaseType_def IsEmpty_def rowMajor_def
        exampleContext_def)
  from o [rule_format, of "exampleConstant 1 3" Int32 1 3] v'
  obtain st' s2 where "EnsureEmittable rowMajor s1 (exampleConstant 1 3) =
        Inr (SetData (exampleConstant 1 3) (Emittable (PointerOffset st' (LiteralInt 3))), s2)"
    "st' \<noteq> st" by auto
  with e v'(4) show ?thesis by blast
qed

lemma CopyDataImpl_constantSource:
  assumes "\<not> IsConstant destination"
    and "TypeCompatible destination source
         \<or> \<not> (PointerLevel destination = PointerLevel source
               \<or> PointerLevel destination = 1 + PointerLevel source)"
    and "underlyingData destination = Emittable destValue"
    and "underlyingData source = ConstantPointer t a off"
    and "layout source = Some l"
    and "\<forall>c\<in>set (coordinates (GetActiveSize X l)).
           readConstant s a off (GetEntryOffset X l c) = Inr (elem c)"
  shows "CopyDataImpl X s source destination =
     Inr (destination, s\<lparr>emitted := emitted s @
       map (\<lambda>c. Store (PointerOffset destValue (LiteralInt (GetEntryOffset X l c)))
              (Literal (elem c)))
         (coordinates (GetActiveSize X l))\<rparr>)"
  using assms(1-5)
  by (auto simp: CopyDataImpl_def ToLLVMValue_def GetLayout_def withValue_def
      doWhile_CopyData_constantSource [OF assms(6)])

lemma CopyDataImpl_emittableSource:
  assumes "\<not> IsConstant destination"
    and "TypeCompatible destination source
         \<or> \<not> (PointerLevel destination = PointerLevel source
               \<or> PointerLevel destination = 1 + PointerLevel source)"
    and "underlyingData destination = Emittable destValue"
    and "underlyingData source = Emittable srcValue" "srcValue \<noteq> destValue"
    and "layout source = Some l" "\<not> IsContiguous X l"
  shows "CopyDataImpl X s source destination =
     Inr (destination, s\<lparr>emitted := emitted s @
       map (\<lambda>c. Store (PointerOffset destValue (LiteralInt (GetEntryOffset X l c)))
              (Load (PointerOffset srcValue (LiteralInt (GetEntryOffset X l c)))))
         (coordinates (GetActiveSize X l))\<rparr>)"
  using assms
  by (auto simp: CopyDataImpl_def ToLLVMValue_def GetLayout_def withValue_def
      doWhile_CopyData_emittableSource)

lemma BinaryOperationImpl_Emittable:
  assumes "IsDefined source" "IsDefined destination"
    and "TypeCompatible destination source"
    and "layout destination = Some l" "layout source = Some l"
    and "functionStack s \<noteq> []"
    and "underlyingData destination = Emittable destValue"
    and "underlyingData source = Emittable srcValue"
    and "BinaryOperation_opFn op (IsFloatingPoint X destination) = Inr operator"
  shows "BinaryOperationImpl X s op destination source =
     Inr (destination, s\<lparr>emitted := emitted s @
       map (\<lambda>c. SetValueAt destValue (LiteralInt (GetEntryOffset X l c))
              (Operator operator (ValueAt destValue (LiteralInt (GetEntryOffset X l c)))
                 (ValueAt srcValue (LiteralInt (GetEntryOffset X l c)))))
           (coordinates (GetActiveSize X l))\<rparr>)"
proof -
  have nc: "\<not> IsConstant destination" using assms(7) by (simp add: IsConstant_def)
  have red: "BinaryOperationImpl X s op destination source =
      BinaryOperation_emit X s op destination source"
    using assms(2) nc by (intro BinaryOperationImpl_emitted [OF assms(1) _ assms(5)]) auto
  show ?thesis
    unfolding red
    by (rule BinaryOperation_emit_Emittable
          [OF assms(3,4,5,6) EnsureEmittable_not_constant [OF nc] assms(7,8,9)])
qed

lemma BinaryOperationImpl_constantSource:
  assumes "IsDefined source" "IsDefined destination"
    and "TypeCompatible destination source"
    and "layout destination = Some l" "layout source = Some l"
    and "functionStack s \<noteq> []"
    and "underlyingData destination = Emittable destValue"
    and "underlyingData source = ConstantPointer t a off" "t \<noteq> Boolean"
    and "BinaryOperation_opFn op (IsFloatingPoint X destination) = Inr operator"
    and "\<forall>c\<in>set (coordinates (GetActiveSize X l)).
           readConstant s a off (GetEntryOffset X l c) = Inr (elem c)"
  shows "BinaryOperationImpl X s op destination source =
     Inr (destination, s\<lparr>emitted := emitted s @
       map (\<lambda>c. SetValueAt destValue (LiteralInt (GetEntryOffset X l c))
              (Operator operator (ValueAt destValue (LiteralInt (GetEntryOffset X l c)))
                 (Literal (elem c))))
           (coordinates (GetActiveSize X l))\<rparr>)"
proof -
  have nc: "\<not> IsConstant destination" using assms(7) by (simp add: IsConstant_def)
  have red: "BinaryOperationImpl X s op destination source =
      BinaryOperation_emit X s op destination source"
    using assms(2) nc by (intro BinaryOperationImpl_emitted [OF assms(1) _ assms(5)]) auto
  note checked = BinaryOperation_emit_checked
      [OF assms(3,4,5,6) EnsureEmittable_not_constant [OF nc], where op = op]
  show ?thesis
    unfolding red checked
    using assms(7,9,10)
    by (cases t)
       (simp_all add: assms(8) ToLLVMValue_def withValue_def
          doWhile_BinaryOperation_step_constant [OF assms(11)])
qed

lemma LogicalOperationImpl_operands:
  assumes "layout A = Some l" "layout B = Some l"
    and "\<not> (IsConstant A \<and> IsConstant B)"
    and "functionStack s \<noteq> []"
    and "\<forall>c\<in>set (coordinates (GetActiveSize X l)).
      LogicalOperation_operand s (underlyingData A)
        (GetLogicalEntryOffset X l (GetLogicalCoordinates X l c)) = Inr (operand1 c)
    \<and> LogicalOperation_operand s (underlyingData B)
        (GetLogicalEntryOffset X l (GetLogicalCoordinates X l c)) = Inr (operand2 c)"
  shows "LogicalOperationImpl X s op A B =
     Inr (EmittableValue X
       (foldl (\<lambda>result c. LogicalAnd result
          (Comparison
             (LogicalOperation_comparisonOp op
                (IsFloatingPoint X A \<or> IsFloatingPointPointer X A))
             (operand1 c) (operand2 c)))
        TrueBit (coordinates (GetActiveSize X l)))
       (ScalarLayout X), s)"
proof -
  obtain c0 where c0: "c0 \<in> set (coordinates (GetActiveSize X l))"
    using coordinates_nonempty [of "GetActiveSize X l"]
    by (cases "coordinates (GetActiveSize X l)") auto
  from assms(5) c0 have dat: "underlyingData A \<noteq> UndefinedData" "underlyingData B \<noteq> UndefinedData"
    by (auto simp: LogicalOperation_operand_def)
  have "LogicalOperationImpl X s op A B =
     LogicalOperation_loop X s
       (LogicalOperation_comparisonOp op (IsFloatingPoint X A \<or> IsFloatingPointPointer X A))
       l l (underlyingData A) (underlyingData B)"
    by (rule LogicalOperationImpl_emitted [OF assms(1,2,3) dat assms(4)])
  then show ?thesis
    using assms(4)
    by (simp add: LogicalOperation_loop_def GetFunctionEmitter_def
        doWhile_LogicalOperation_operands [OF assms(5)] split: list.splits)
qed

text \<open>
  C2. The coordinates of a layout are iterated in odometer order, the last dimension
  varying fastest. Incrementing the empty coordinate reports the end of the iteration;
  incrementing a coordinate increments its last component (a 32-bit \<^verbatim>\<open>int\<close>, whose increment
  wraps around) and, when the result is not below the extent, resets it to zero and
  carries into the dimensions before it; the iteration ends when the first dimension
  overflows. The loop \<^verbatim>\<open>do { ... } while (IncrementMemoryCoordinate(...))\<close> always ends, and
  for every active size it visits the lexicographic enumeration of the components from
  zero to the extent minus one (a dimension whose extent is below one is visited once, at
  zero); for the active size [2,3] the sequence is (0,0),(0,1),(0,2),(1,0),(1,1),(1,2).
  Each per-element operation other than \<open>Cast\<close> runs that loop, and what it does is, in the
  order of that sequence, one step per coordinate: \<open>For\<close> calls its function; \<open>CopyData\<close>
  from a constant and \<open>CopyData\<close> over a layout that is not contiguous emit one store;
  \<open>BinaryOperation\<close>, with an emittable or a constant source, emits one operator;
  \<open>LogicalOperation\<close> on operands that are not both constant conjoins one comparison of the
  two operands at the coordinate; the one-argument intrinsics and \<open>pow\<close> emit one call, \<open>max\<close>
  and \<open>min\<close> one select. \<open>Cast\<close> instead runs over the indices below the memory size of the
  layout, in increasing order.
\<close>

theorem C2_odometer_order:
  fixes X :: "('a::linorder, 'l) Ext"
  shows "IncrementMemoryCoordinate [] [] = Some (False, [])
   \<and> (\<forall>x M. IncrementMemoryCoordinate [x] [M] =
         Some (if sint (x + 1) \<ge> sint M then (False, [0]) else (True, [x + 1])))
   \<and> (\<forall>q mq x M. length q = length mq \<longrightarrow>
         IncrementMemoryCoordinate (q @ [x]) (mq @ [M]) =
           (if sint (x + 1) \<ge> sint M
            then map_option (\<lambda>(b, q'). (b, q' @ [0])) (IncrementMemoryCoordinate q mq)
            else Some (True, q @ [x + 1])))
   \<and> coordinates ds = product_lists (map (\<lambda>d. map word_of_int [0..max (sint d) 1 - 1]) ds)
   \<and> coordinates [2, 3] = [[0, 0], [0, 1], [0, 2], [1, 0], [1, 1], [1, 2]]
   \<and> ForImpl X l fn s0 =
       foldl (\<lambda>s c. fn (GetLogicalCoordinates X l c) s) s0
         (product_lists
            (map (\<lambda>d. map word_of_int [0..max (sint d) 1 - 1]) (GetActiveSize X l)))
   \<and> (\<not> IsConstant destination
        \<and> (TypeCompatible destination source
            \<or> \<not> (PointerLevel destination = PointerLevel source
                  \<or> PointerLevel destination = 1 + PointerLevel source))
        \<and> underlyingData destination = Emittable destValue
        \<and> underlyingData source = ConstantPointer t a off
        \<and> layout source = Some l
        \<and> (\<forall>c\<in>set (coordinates (GetActiveSize X l)).
              readConstant s a off (GetEntryOffset X l c) = Inr (elem c)) \<longrightarrow>
        CopyDataImpl X s source destination =
          Inr (destination, s\<lparr>emitted := emitted s @
            map (\<lambda>c. Store (PointerOffset destValue (LiteralInt (GetEntryOffset X l c)))
                   (Literal (elem c)))
              (coordinates (GetActiveSize X l))\<rparr>))
   \<and> (\<not> IsConstant destination
        \<and> (TypeCompatible destination source
            \<or> \<not> (PointerLevel destination = PointerLevel source
                  \<or> PointerLevel destination = 1 + PointerLevel source))
        \<and> underlyingData destination = Emittable destValue
        \<and> underlyingData source = Emittable srcValue \<and> srcValue \<noteq> destValue
        \<and> layout source = Some l \<and> \<not> IsContiguous X l \<longrightarrow>
        CopyDataImpl X s source destination =
          Inr (destination, s\<lparr>emitted := emitted s @
            map (\<lambda>c. Store (PointerOffset destValue (LiteralInt (GetEntryOffset X l c)))
                   (Load (PointerOffset srcValue (LiteralInt (GetEntryOffset X l c)))))
              (coordinates (GetActiveSize X l))\<rparr>))
   \<and> (IsDefined source \<and> IsDefined destination
        \<and> TypeCompatible destination source
        \<and> layout destination = Some l \<and> layout source = Some l
        \<and> functionStack s \<noteq> []
        \<and> underlyingData destination = Emittable destValue
        \<and> underlyingData source = Emittable srcValue
        \<and> BinaryOperation_opFn op (IsFloatingPoint X destination) = Inr operator \<longrightarrow>
        BinaryOperationImpl X s op destination source =
          Inr (destination, s\<lparr>emitted := emitted s @
            map (\<lambda>c. SetValueAt destValue (LiteralInt (GetEntryOffset X l c))
                   (Operator operator (ValueAt destValue (LiteralInt (GetEntryOffset X l c)))
                      (ValueAt srcValue (LiteralInt (GetEntryOffset X l c)))))
              (coordinates (GetActiveSize X l))\<rparr>))
   \<and> (IsDefined source \<and> IsDefined destination
        \<and> TypeCompatible destination source
        \<and> layout destination = Some l \<and> layout source = Some l
        \<and> functionStack s \<noteq> []
        \<and> underlyingData destination = Emittable destValue
        \<and> underlyingData source = ConstantPointer t a off \<and> t \<noteq> Boolean
        \<and> BinaryOperation_opFn op (IsFloatingPoint X destination) = Inr operator
        \<and> (\<forall>c\<in>set (coordinates (GetActiveSize X l)).
              readConstant s a off (GetEntryOffset X l c) = Inr (elem c)) \<longrightarrow>
        BinaryOperationImpl X s op destination source =
          Inr (destination, s\<lparr>emitted := emitted s @
            map (\<lambda>c. SetValueAt destValue (LiteralInt (GetEntryOffset X l c))
                   (Operator operator (ValueAt destValue (LiteralInt (GetEntryOffset X l c)))
                      (Literal (elem c))))
              (coordinates (GetActiveSize X l))\<rparr>))
   \<and> (layout destination = Some l \<and> layout source = Some l
        \<and> \<not> (IsConstant destination \<and> IsConstant source)
        \<and> functionStack s \<noteq> []
        \<and> (\<forall>c\<in>set (coordinates (GetActiveSize X l)).
              LogicalOperation_operand s (underlyingData destination)
                (GetLogicalEntryOffset X l (GetLogicalCoordinates X l c)) = Inr (operand1 c)
            \<and> LogicalOperation_operand s (underlyingData source)
                (GetLogicalEntryOffset X l (GetLogicalCoordinates X l c)) = Inr (operand2 c)) \<longrightarrow>
        LogicalOperationImpl X s lop destination source =
          Inr (EmittableValue X
            (foldl (\<lambda>result c. LogicalAnd result
               (Comparison
                  (LogicalOperation_comparisonOp lop
                     (IsFloatingPoint X destination \<or> IsFloatingPointPointer X destination))
                  (operand1 c) (operand2 c)))
             TrueBit (coordinates (GetActiveSize X l)))
            (ScalarLayout X), s))
   \<and> (GetBaseType source \<noteq> Boolean \<and> GetBaseType source \<noteq> Undefined
        \<and> underlyingData source = Emittable srcValue \<and> functionStack s \<noteq> []
        \<and> layout source = Some l \<longrightarrow>
        SimpleNumericalFunctionIntrinsic X name s [source] =
          Inr (EmittableValue X (Variable (nextVariable s)) l,
          s\<lparr>nextVariable := Suc (nextVariable s),
            emitted := emitted s @
              MemorySet (Variable (nextVariable s)) (GetMemorySize X l) #
              map (\<lambda>c. SetValueAt (Variable (nextVariable s))
                     (LiteralInt (GetLogicalEntryOffset X l (GetLogicalCoordinates X l c)))
                     (Call (RuntimeFunction name
                              (if GetBaseType source = Float then VarFloat else VarDouble))
                        [if IsFloatingPoint X source \<or> IsFloatingPointPointer X source
                         then ValueAt srcValue
                                (LiteralInt (GetLogicalEntryOffset X l (GetLogicalCoordinates X l c)))
                         else CastValue Double
                                (ValueAt srcValue
                                  (LiteralInt (GetLogicalEntryOffset X l
                                     (GetLogicalCoordinates X l c))))]))
                (coordinates (GetActiveSize X l))\<rparr>))
   \<and> (GetBaseType source = GetBaseType exponent
        \<and> GetBaseType source \<noteq> Boolean \<and> GetBaseType source \<noteq> Undefined
        \<and> \<not> (IsConstrained exponent \<and> layout exponent \<noteq> Some (ScalarLayout X))
        \<and> underlyingData source = Emittable srcValue
        \<and> underlyingData exponent = Emittable expValue
        \<and> functionStack s \<noteq> [] \<and> layout source = Some l \<longrightarrow>
        PowFunctionIntrinsic X s [source, exponent] =
          Inr (EmittableValue X (Variable (nextVariable s)) l,
          s\<lparr>nextVariable := Suc (nextVariable s),
            emitted := emitted s @
              MemorySet (Variable (nextVariable s)) (GetMemorySize X l) #
              map (\<lambda>c. SetValueAt (Variable (nextVariable s))
                     (LiteralInt (GetLogicalEntryOffset X l (GetLogicalCoordinates X l c)))
                     (Call (RuntimeFunction ''pow''
                              (if GetBaseType source = Float then VarFloat else VarDouble))
                        [if IsFloatingPoint X source \<or> IsFloatingPointPointer X source
                         then ValueAt srcValue
                                (LiteralInt (GetLogicalEntryOffset X l (GetLogicalCoordinates X l c)))
                         else CastValue Double
                                (ValueAt srcValue
                                  (LiteralInt (GetLogicalEntryOffset X l
                                     (GetLogicalCoordinates X l c)))),
                         if IsFloatingPoint X exponent \<or> IsFloatingPointPointer X exponent
                         then ValueAt expValue (LiteralInt 0)
                         else CastValue Double (ValueAt expValue (LiteralInt 0))]))
                (coordinates (GetActiveSize X l))\<rparr>))
   \<and> (GetBaseType source \<noteq> Boolean \<and> GetBaseType source \<noteq> Undefined
        \<and> underlyingData source = Emittable srcValue \<and> functionStack s \<noteq> []
        \<and> layout source = Some l \<longrightarrow>
        MaxMinIntrinsicFunction X intrinsic s [source] =
          Inr (EmittableValue X (Variable (nextVariable s)) (ScalarLayout X),
          s\<lparr>nextVariable := Suc (nextVariable s),
            emitted := emitted s @
              MemorySet (Variable (nextVariable s)) (GetMemorySize X (ScalarLayout X)) #
              SetValueAt (Variable (nextVariable s)) (LiteralInt 0)
                (ValueAt srcValue (LiteralInt 0)) #
              map (\<lambda>c. SetValueAt (Variable (nextVariable s)) (LiteralInt 0)
                     (Select
                        (Comparison (MaxMin_cmpOp intrinsic (GetBaseType source))
                           (ValueAt (Variable (nextVariable s)) (LiteralInt 0))
                           (ValueAt srcValue
                              (LiteralInt (GetLogicalEntryOffset X l
                                 (GetLogicalCoordinates X l c)))))
                        (ValueAt (Variable (nextVariable s)) (LiteralInt 0))
                        (ValueAt srcValue
                           (LiteralInt (GetLogicalEntryOffset X l
                              (GetLogicalCoordinates X l c))))))
                (coordinates (GetActiveSize X l))\<rparr>))
   \<and> (underlyingData source = Emittable srcValue \<and> functionStack s \<noteq> []
        \<and> type \<noteq> Undefined \<and> layout source = Some l \<longrightarrow>
        CastImpl X s source type =
          Inr (EmittableValue X (Variable (nextVariable s)) l,
          s\<lparr>nextVariable := Suc (nextVariable s),
            emitted := emitted s @
              MemorySet (Variable (nextVariable s)) (GetMemorySize X l) #
              map (\<lambda>index. SetValueAt (Variable (nextVariable s)) (LiteralInt (int index))
                     (CastValue type (ValueAt srcValue (LiteralInt (int index)))))
                [0..<GetMemorySize X l]\<rparr>))"
proof -
  have c1: "IncrementMemoryCoordinate [] [] = Some (False, [])"
    by (simp add: IncrementMemoryCoordinate_def IncrementMemoryCoordinateImpl.simps)
  have c3: "IncrementMemoryCoordinate (q @ [x]) (mq @ [M]) =
           (if sint (x + 1) \<ge> sint M
            then map_option (\<lambda>(b, q'). (b, q' @ [0])) (IncrementMemoryCoordinate q mq)
            else Some (True, q @ [x + 1]))"
    if "length q = length mq" for q mq x M
    using that by (rule IncrementMemoryCoordinate_snoc)
  have c2: "IncrementMemoryCoordinate [x] [M] =
         Some (if sint (x + 1) \<ge> sint M then (False, [0]) else (True, [x + 1]))" for x M
    using c3 [of "[]" "[]" x M] c1 by simp
  have c4: "coordinates ds =
      product_lists (map (\<lambda>d. map word_of_int [0..max (sint d) 1 - 1]) ds)"
    by (rule coordinates_product_lists)
  have c5: "coordinates [2, 3 :: int32] = [[0, 0], [0, 1], [0, 2], [1, 0], [1, 1], [1, 2]]"
    by (simp add: coordinates_product_lists upto_rec1)
  have c6: "ForImpl X l fn s0 =
       foldl (\<lambda>s c. fn (GetLogicalCoordinates X l c) s) s0
         (product_lists
            (map (\<lambda>d. map word_of_int [0..max (sint d) 1 - 1]) (GetActiveSize X l)))"
    by (simp only: ForImpl_def Let_def coordinates_product_lists)
  note c7 = CopyDataImpl_constantSource [of destination source destValue t a off l X s elem]
  note c8 = CopyDataImpl_emittableSource [of destination source destValue srcValue l X s]
  note c9 = BinaryOperationImpl_Emittable
      [of source destination l s destValue srcValue op X operator]
  note c9c = BinaryOperationImpl_constantSource
      [of source destination l s destValue t a off op X operator elem]
  note c10 = LogicalOperationImpl_operands [of destination l source s X operand1 operand2 lop]
  note c11 = SimpleNumericalFunctionIntrinsic_emits [of source srcValue s l X name]
  note c12 = PowFunctionIntrinsic_emits [of source exponent X srcValue expValue s l]
  note c13 = MaxMinIntrinsicFunction_emits [of source srcValue s l X intrinsic]
  note c14 = CastImpl_emits [of source srcValue s type l X]
  show ?thesis
    apply (intro conjI allI)
                  apply (rule c1)
                 apply (rule c2)
                apply (intro impI, erule c3)
               apply (rule c4)
              apply (rule c5)
             apply (rule c6)
            apply (intro impI, elim conjE, rule c7; (assumption | simp))
           apply (intro impI, elim conjE, rule c8; (assumption | simp))
          apply (intro impI, elim conjE, rule c9; (assumption | simp))
         apply (intro impI, elim conjE, rule c9c; (assumption | simp))
        apply (intro impI, elim conjE, rule c10; (assumption | simp))
       apply (intro impI, elim conjE, rule c11; (assumption | simp))
      apply (intro impI, elim conjE, rule c12; (assumption | simp))
     apply (intro impI, elim conjE, rule c13; (assumption | simp))
    apply (intro impI, elim conjE, rule c14; (assumption | simp))
    done
qed

theorem C2_odometer_order_witness:
  "IncrementMemoryCoordinate ([0] @ [2]) ([2] @ [3]) = Some (True, [1, 0])
   \<and> ForImpl rowMajor [2, 3] (\<lambda>c visited. visited @ [c]) [] =
       [[0, 0], [0, 1], [0, 2], [1, 0], [1, 1], [1, 2]]
   \<and> CopyDataImpl padded exampleContext (exampleRows (Variable 0)) (exampleRows (Variable 2)) =
       Inr (exampleRows (Variable 2),
            exampleContext\<lparr>emitted :=
              [Store (PointerOffset (Variable 2) (LiteralInt 0))
                 (Load (PointerOffset (Variable 0) (LiteralInt 0))),
               Store (PointerOffset (Variable 2) (LiteralInt 1))
                 (Load (PointerOffset (Variable 0) (LiteralInt 1))),
               Store (PointerOffset (Variable 2) (LiteralInt 3))
                 (Load (PointerOffset (Variable 0) (LiteralInt 3))),
               Store (PointerOffset (Variable 2) (LiteralInt 4))
                 (Load (PointerOffset (Variable 0) (LiteralInt 4)))]\<rparr>)"
proof -
  note inst = C2_odometer_order [where X = padded and l = "[2, 2]" and s = exampleContext
      and source = "exampleRows (Variable 0)" and destination = "exampleRows (Variable 2)"
      and srcValue = "Variable 0" and destValue = "Variable 2"]
  note step = inst [THEN conjunct2, THEN conjunct2, THEN conjunct1]
  note copy = inst [THEN conjunct2, THEN conjunct2, THEN conjunct2, THEN conjunct2,
      THEN conjunct2, THEN conjunct2, THEN conjunct2, THEN conjunct1]
  have s1: "IncrementMemoryCoordinate ([0] @ [2]) ([2] @ [3]) =
      map_option (\<lambda>(b, q'). (b, q' @ [0])) (IncrementMemoryCoordinate [0] [2])"
    using step [rule_format, of "[0]" "[2]" 2 3] by simp
  have s2: "IncrementMemoryCoordinate [0] [2] = Some (True, [1])"
    using step [rule_format, of "[]" "[]" 0 2] by simp
  from C2_odometer_order [where X = rowMajor and l = "[2, 3]"
      and fn = "\<lambda>c visited. visited @ [c]" and ?s0.0 = "[]",
      THEN conjunct2, THEN conjunct2, THEN conjunct2, THEN conjunct2, THEN conjunct2,
      THEN conjunct1]
  have f: "ForImpl rowMajor [2, 3] (\<lambda>c visited. visited @ [c]) [] =
       [[0, 0], [0, 1], [0, 2], [1, 0], [1, 1], [1, 2]]"
    by (simp add: rowMajor_def upto_rec1)
  have v: "\<not> IsConstant (exampleRows e)" "underlyingData (exampleRows e) = Emittable e"
    "layout (exampleRows e) = Some [2, 2]"
    "TypeCompatible (exampleRows e) (exampleRows e')" for e e'
    by (simp_all add: exampleRows_def IsConstant_def TypeCompatible_def GetBaseType_def)
  have p: "\<not> IsContiguous padded [2, 2]" "GetActiveSize padded [2, 2] = [2, 2]"
    "GetEntryOffset padded [2, 2] [0, 0] = 0" "GetEntryOffset padded [2, 2] [0, 1] = 1"
    "GetEntryOffset padded [2, 2] [1, 0] = 3" "GetEntryOffset padded [2, 2] [1, 1] = 4"
    by (simp_all add: padded_def rowMajor_def rowMajorOffset_def)
  have c: "coordinates [2, 2 :: int32] = [[0, 0], [0, 1], [1, 0], [1, 1]]"
    by (simp add: coordinates_product_lists upto_rec1)
  have e: "emitted exampleContext = []" by (simp add: exampleContext_def)
  from copy have "CopyDataImpl padded exampleContext (exampleRows (Variable 0))
       (exampleRows (Variable 2)) =
       Inr (exampleRows (Variable 2),
            exampleContext\<lparr>emitted :=
              [Store (PointerOffset (Variable 2) (LiteralInt 0))
                 (Load (PointerOffset (Variable 0) (LiteralInt 0))),
               Store (PointerOffset (Variable 2) (LiteralInt 1))
                 (Load (PointerOffset (Variable 0) (LiteralInt 1))),
               Store (PointerOffset (Variable 2) (LiteralInt 3))
                 (Load (PointerOffset (Variable 0) (LiteralInt 3))),
               Store (PointerOffset (Variable 2) (LiteralInt 4))
                 (Load (PointerOffset (Variable 0) (LiteralInt 4)))]\<rparr>)"
    by (simp add: v p c e)
  with s1 s2 f show ?thesis by simp
qed

text \<open>
  \<open>Cast\<close> is a per-element operation that does not iterate coordinates. Over a layout of
  two elements followed by one element of padding, the coordinates are (0) and (1), at
  the offsets 0 and 1, and \<open>Cast\<close> converts the three elements at the indices 0, 1 and 2.
\<close>

theorem C2_odometer_order_counterexample:
  "coordinates (GetActiveSize padded [2]) = [[0], [1]]
   \<and> map (GetEntryOffset padded [2]) (coordinates (GetActiveSize padded [2])) = [0, 1]
   \<and> CastImpl padded exampleContext
        ((exampleEmittable Int32 1 (Variable 0))\<lparr>layout := Some [2]\<rparr>) Double =
       Inr (EmittableValue padded (Variable 3) [2],
            exampleContext\<lparr>nextVariable := 4,
              emitted :=
                [MemorySet (Variable 3) 3,
                 SetValueAt (Variable 3) (LiteralInt 0)
                   (CastValue Double (ValueAt (Variable 0) (LiteralInt 0))),
                 SetValueAt (Variable 3) (LiteralInt 1)
                   (CastValue Double (ValueAt (Variable 0) (LiteralInt 1))),
                 SetValueAt (Variable 3) (LiteralInt 2)
                   (CastValue Double (ValueAt (Variable 0) (LiteralInt 2)))]\<rparr>)"
proof -
  have p: "GetActiveSize padded [2] = [2]" "GetMemorySize padded [2] = 3"
    "GetEntryOffset padded [2] [0] = 0" "GetEntryOffset padded [2] [1] = 1"
    by (simp_all add: padded_def rowMajor_def rowMajorOffset_def)
  have c: "coordinates [2 :: int32] = [[0], [1]]"
    by (simp add: coordinates_product_lists upto_rec1)
  have u: "[0..<3] = [0, 1, 2]" by (simp add: upt_rec)
  have x: "functionStack exampleContext \<noteq> []" "nextVariable exampleContext = 3"
    "emitted exampleContext = []"
    by (simp_all add: exampleContext_def)
  have "CastImpl padded exampleContext
        ((exampleEmittable Int32 1 (Variable 0))\<lparr>layout := Some [2]\<rparr>) Double =
       Inr (EmittableValue padded (Variable 3) [2],
            exampleContext\<lparr>nextVariable := 4,
              emitted :=
                [MemorySet (Variable 3) 3,
                 SetValueAt (Variable 3) (LiteralInt 0)
                   (CastValue Double (ValueAt (Variable 0) (LiteralInt 0))),
                 SetValueAt (Variable 3) (LiteralInt 1)
                   (CastValue Double (ValueAt (Variable 0) (LiteralInt 1))),
                 SetValueAt (Variable 3) (LiteralInt 2)
                   (CastValue Double (ValueAt (Variable 0) (LiteralInt 2)))]\<rparr>)"
    by (subst CastImpl_emits [where data = "Variable 0" and l = "[2]"])
       (simp_all add: exampleEmittable_def x p u)
  then show ?thesis by (simp add: p c)
qed











text \<open>
  C4. \<open>CopyData\<close> and \<open>MoveData\<close> into a destination that is not constant: the intended
  rule is that the call fails with \<open>typeMismatch\<close> unless the base types are the same and
  the destination's pointer level is the source's or one more. The code tests
  \<^verbatim>\<open>!TypeCompatible(destination, source) && (levels equal || destination one more)\<close>, so it
  throws only when the base types differ and the pointer levels are compatible. Evaluated:
  with the same base type and pointer levels 1 and 3 the copy is emitted (a store through
  the destination), also by \<open>MoveData\<close>; with base types \<open>Float\<close> and \<open>Int32\<close> and pointer levels
  1 and 3 the copy is emitted as well; with base types \<open>Float\<close> and \<open>Int32\<close> and pointer
  levels 1 and 2 it is rejected.
\<close>

theorem C4_CopyData_pointer_level_check:
  "CopyDataImpl rowMajor exampleContext
     (exampleEmittable Int32 1 (Variable 0)) (exampleEmittable Int32 3 (Variable 2)) =
     Inr (exampleEmittable Int32 3 (Variable 2),
          emit (Store (PointerOffset (Variable 2) (LiteralInt 0)) (Variable 0)) exampleContext)
   \<and> CopyDataImpl rowMajor exampleContext
     (exampleEmittable Float 1 (Variable 0)) (exampleEmittable Int32 3 (Variable 2)) =
     Inr (exampleEmittable Int32 3 (Variable 2),
          emit (Store (PointerOffset (Variable 2) (LiteralInt 0)) (Variable 0)) exampleContext)
   \<and> CopyDataImpl rowMajor exampleContext
     (exampleEmittable Float 1 (Variable 0)) (exampleEmittable Int32 2 (Variable 2)) =
     Inl (InputException typeMismatch, exampleContext)
   \<and> MoveDataImpl rowMajor exampleContext
     ((\<lambda>r. exampleEmittable Int32 3 (Variable 2))(0 := exampleEmittable Int32 1 (Variable 0)))
     0 2 =
     Inr ((\<lambda>r. exampleEmittable Int32 3 (Variable 2))
            (0 := Reset (exampleEmittable Int32 1 (Variable 0))),
          emit (Store (PointerOffset (Variable 2) (LiteralInt 0)) (Variable 0)) exampleContext)"
  by (auto simp add: MoveDataImpl_def CopyDataImpl_def exampleEmittable_def IsConstant_def TypeCompatible_def
      GetBaseType_def PointerLevel_def ToLLVMValue_def GetLayout_def rowMajor_def Let_def
      fun_eq_iff)

lemma transform_Undefined:
  "\<exists>v\<in>set vs. GetBaseType v = Undefined \<Longrightarrow>
   transform (\<lambda>v. ValueTypeToVariableType (GetBaseType v)) vs =
     Inl (LogicException illegalState)"
proof (induction vs)
  case Nil
  then show ?case by simp
next
  case (Cons v vs)
  show ?case
  proof (cases "GetBaseType v = Undefined")
    case True
    then show ?thesis by (simp add: ValueTypeToVariableType_def)
  next
    case False
    with Cons.prems have "\<exists>v\<in>set vs. GetBaseType v = Undefined" by simp
    from Cons.IH [OF this] False show ?thesis
      by (cases "GetBaseType v") (simp_all add: ValueTypeToVariableType_def)
  qed
qed

lemma CreateFunction_scope_throws:
  assumes "fn (argumentValues (GetParameterTypes decl))
         ((FunctionScope_enter s (GetFunctionName decl) rt ats)
            \<lparr>emitted := emitted (FunctionScope_enter s (GetFunctionName decl) rt ats) @
                [SetAttributeForArguments]\<rparr>) = Inl (e, sb)"
  shows "CreateFunction_scope X s decl fn rt ats = Inl (e, FunctionScope_exit sb)"
  using assms by (simp add: CreateFunction_scope_def Let_def)

lemma IsIntrinsic_key:
  "declarationKey d2 = declarationKey decl \<Longrightarrow> IsIntrinsic X d2 = IsIntrinsic X decl"
  by (simp add: IsIntrinsic_def)

text \<open>
  C5. \<open>CreateFunction\<close> memoizes by declaration, declarations being compared by their key
  (name, parameter TypeDescriptions, return TypeDescription). For a declaration equal to
  a built-in intrinsic it fails with \<open>invalidArgument\<close> and changes nothing, whatever the
  cache holds (the intrinsic check comes first). For any other declaration that is in the
  cache it returns the cached callable and changes nothing, whatever the body is: the body
  is not invoked. For any other declaration that is not in the cache: a call that
  completes has applied the body once, to the argument Values in the entered function
  scope, has ended the function on the body's result and has put the returned callable
  into the cache, so that every later call with an equal declaration returns that
  callable without invoking its body; a call for a declaration with a parameter of
  \<open>Undefined\<close> base type fails with \<open>illegalState\<close> and changes nothing, whatever the body is;
  and a call whose body throws fails with the body's exception, leaves the scope and
  registers nothing: the cache is as the body left it.
\<close>

theorem C5_CreateFunction_memoizes:
  "(IsIntrinsic X decl \<longrightarrow>
      CreateFunctionImpl X s decl fn = Inl (InputException invalidArgument, s))
   \<and> (\<not> IsIntrinsic X decl \<and> definedFunctions s (declarationKey decl) = Some existing \<longrightarrow>
        (\<forall>fn2. CreateFunctionImpl X s decl fn2 = Inr (existing, s)))
   \<and> (\<not> IsIntrinsic X decl \<and> definedFunctions s (declarationKey decl) = None
        \<and> CreateFunctionImpl X s decl fn = Inr (callable, s') \<longrightarrow>
        definedFunctions s' (declarationKey decl) = Some callable
        \<and> (\<forall>fn2 d2. declarationKey d2 = declarationKey decl \<longrightarrow>
              CreateFunctionImpl X s' d2 fn2 = Inr (callable, s'))
        \<and> (\<exists>rt ats r sb sc ret.
              fn (argumentValues (GetParameterTypes decl))
                 ((FunctionScope_enter s (GetFunctionName decl) rt ats)
                    \<lparr>emitted := emitted (FunctionScope_enter s (GetFunctionName decl) rt ats) @
                        [SetAttributeForArguments]\<rparr>) = Inr (r, sb)
            \<and> ((r = None \<and> sc = sb \<and> ret = None)
                \<or> (\<exists>rv e. r = Some rv \<and> EnsureEmittable X sb rv = Inr (e, sc)
                      \<and> (\<exists>llvmValue. underlyingData e = Emittable llvmValue
                            \<and> ret = Some llvmValue)))
            \<and> CreateFunction_end sc decl ret = Inr (callable, s')))
   \<and> (\<not> IsIntrinsic X decl \<and> definedFunctions s (declarationKey decl) = None
        \<and> (\<exists>v\<in>set (GetParameterTypes decl). GetBaseType v = Undefined) \<longrightarrow>
        (\<forall>fn2. CreateFunctionImpl X s decl fn2 = Inl (LogicException illegalState, s)))
   \<and> (\<not> IsIntrinsic X decl \<and> definedFunctions s (declarationKey decl) = None
        \<and> transform (\<lambda>v. ValueTypeToVariableType (GetBaseType v)) (GetParameterTypes decl) =
            Inr ats
        \<and> ValueTypeToVariableType
            (case GetReturnType decl of Some r \<Rightarrow> GetBaseType r | None \<Rightarrow> Void) = Inr rt
        \<and> fn (argumentValues (GetParameterTypes decl))
             ((FunctionScope_enter s (GetFunctionName decl) rt ats)
                \<lparr>emitted := emitted (FunctionScope_enter s (GetFunctionName decl) rt ats) @
                    [SetAttributeForArguments]\<rparr>) = Inl (e, sb) \<longrightarrow>
        CreateFunctionImpl X s decl fn = Inl (e, FunctionScope_exit sb)
        \<and> definedFunctions (FunctionScope_exit sb) = definedFunctions sb)"
proof (intro conjI impI allI)
  assume "IsIntrinsic X decl"
  then show "CreateFunctionImpl X s decl fn = Inl (InputException invalidArgument, s)"
    by (rule CreateFunctionImpl_intrinsic)
next
  fix fn2
  assume "\<not> IsIntrinsic X decl \<and> definedFunctions s (declarationKey decl) = Some existing"
  then show "CreateFunctionImpl X s decl fn2 = Inr (existing, s)"
    by (simp add: CreateFunctionImpl_cached)
next
  assume a: "\<not> IsIntrinsic X decl \<and> definedFunctions s (declarationKey decl) = None
        \<and> CreateFunctionImpl X s decl fn = Inr (callable, s')"
  then obtain rt ats where sc: "CreateFunction_scope X s decl fn rt ats = Inr (callable, s')"
    by (auto simp: CreateFunctionImpl_def Let_def split: sum.splits)
  from CreateFunction_scope_body [OF sc]
  show body: "\<exists>rt ats r sb sc ret.
              fn (argumentValues (GetParameterTypes decl))
                 ((FunctionScope_enter s (GetFunctionName decl) rt ats)
                    \<lparr>emitted := emitted (FunctionScope_enter s (GetFunctionName decl) rt ats) @
                        [SetAttributeForArguments]\<rparr>) = Inr (r, sb)
            \<and> ((r = None \<and> sc = sb \<and> ret = None)
                \<or> (\<exists>rv e. r = Some rv \<and> EnsureEmittable X sb rv = Inr (e, sc)
                      \<and> (\<exists>llvmValue. underlyingData e = Emittable llvmValue
                            \<and> ret = Some llvmValue)))
            \<and> CreateFunction_end sc decl ret = Inr (callable, s')"
    by blast
  then show cached: "definedFunctions s' (declarationKey decl) = Some callable"
    using CreateFunction_end_registers by blast
  show "CreateFunctionImpl X s' d2 fn2 = Inr (callable, s')"
    if k: "declarationKey d2 = declarationKey decl" for fn2 d2
    using a cached k IsIntrinsic_key [OF k, of X]
    by (simp add: CreateFunctionImpl_cached)
next
  fix fn2
  assume "\<not> IsIntrinsic X decl \<and> definedFunctions s (declarationKey decl) = None
        \<and> (\<exists>v\<in>set (GetParameterTypes decl). GetBaseType v = Undefined)"
  then show "CreateFunctionImpl X s decl fn2 = Inl (LogicException illegalState, s)"
    by (simp add: CreateFunctionImpl_def transform_Undefined)
next
  assume a: "\<not> IsIntrinsic X decl \<and> definedFunctions s (declarationKey decl) = None
        \<and> transform (\<lambda>v. ValueTypeToVariableType (GetBaseType v)) (GetParameterTypes decl) =
            Inr ats
        \<and> ValueTypeToVariableType
            (case GetReturnType decl of Some r \<Rightarrow> GetBaseType r | None \<Rightarrow> Void) = Inr rt
        \<and> fn (argumentValues (GetParameterTypes decl))
             ((FunctionScope_enter s (GetFunctionName decl) rt ats)
                \<lparr>emitted := emitted (FunctionScope_enter s (GetFunctionName decl) rt ats) @
                    [SetAttributeForArguments]\<rparr>) = Inl (e, sb)"
  then have "CreateFunction_scope X s decl fn rt ats = Inl (e, FunctionScope_exit sb)"
    by (intro CreateFunction_scope_throws) blast
  with a show "CreateFunctionImpl X s decl fn = Inl (e, FunctionScope_exit sb)"
    by (simp add: CreateFunctionImpl_def Let_def)
  show "definedFunctions (FunctionScope_exit sb) = definedFunctions sb"
    by (simp add: FunctionScope_exit_def)
qed

theorem C5_CreateFunction_memoizes_witness:
  "CreateFunctionImpl rowMajor exampleContext exampleIntrinsic exampleBody =
     Inl (InputException invalidArgument, exampleContext)
   \<and> (\<exists>callable s'.
        CreateFunctionImpl rowMajor exampleContext exampleDeclaration exampleBody =
          Inr (callable, s')
        \<and> definedFunctions s' (declarationKey exampleDeclaration) = Some callable
        \<and> CreateFunctionImpl rowMajor s' exampleDeclaration exampleThrowingBody =
            Inr (callable, s')
        \<and> CreateFunctionImpl rowMajor s'
            (exampleDeclaration\<lparr>GetParameterTypes := [exampleDeclared\<lparr>layout := None\<rparr>]\<rparr>)
            exampleThrowingBody = Inr (callable, s'))
   \<and> CreateFunctionImpl rowMajor exampleContext exampleUntyped exampleBody =
       Inl (LogicException illegalState, exampleContext)"
proof -
  have i: "IsIntrinsic rowMajor exampleIntrinsic"
    by (simp add: IsIntrinsic_def GetIntrinsics_def intrinsics_def rowMajor_def
        exampleIntrinsicDeclaration_def)
  have n: "\<not> IsIntrinsic rowMajor exampleDeclaration"
    by (simp add: IsIntrinsic_def GetIntrinsics_def intrinsics_def rowMajor_def
        exampleIntrinsicDeclaration_def declarationKey_def exampleDeclaration_def
        exampleIntrinsic_def exampleUnary_def)
  have nu: "\<not> IsIntrinsic rowMajor exampleUntyped"
    by (simp add: IsIntrinsic_def GetIntrinsics_def intrinsics_def rowMajor_def
        exampleIntrinsicDeclaration_def declarationKey_def exampleUntyped_def
        exampleIntrinsic_def exampleUnary_def)
  have d: "definedFunctions exampleContext (declarationKey exampleDeclaration) = None"
    "definedFunctions exampleContext (declarationKey exampleUntyped) = None"
    by (simp_all add: exampleContext_def)
  have k: "declarationKey (exampleDeclaration\<lparr>GetParameterTypes :=
              [exampleDeclared\<lparr>layout := None\<rparr>]\<rparr>) = declarationKey exampleDeclaration"
    by (simp add: declarationKey_def exampleDeclaration_def exampleDeclared_def)
  have "\<exists>callable s'.
      CreateFunctionImpl rowMajor exampleContext exampleDeclaration exampleBody = Inr (callable, s')"
    using n d
    by (simp add: CreateFunctionImpl_def CreateFunction_scope_def CreateFunction_end_def
        exampleBody_def Let_def ValueTypeToVariableType_def GetBaseType_def
        exampleDeclaration_def)
  then obtain callable s' where
    r: "CreateFunctionImpl rowMajor exampleContext exampleDeclaration exampleBody =
      Inr (callable, s')" by blast
  from C5_CreateFunction_memoizes [where decl = exampleDeclaration and X = rowMajor
      and s = exampleContext and fn = exampleBody and callable = callable and s' = s'] n d r
  have "definedFunctions s' (declarationKey exampleDeclaration) = Some callable
      \<and> (\<forall>fn2 d2. declarationKey d2 = declarationKey exampleDeclaration \<longrightarrow>
            CreateFunctionImpl rowMajor s' d2 fn2 = Inr (callable, s'))"
    by blast
  with k have "definedFunctions s' (declarationKey exampleDeclaration) = Some callable
      \<and> CreateFunctionImpl rowMajor s' exampleDeclaration exampleThrowingBody =
            Inr (callable, s')
      \<and> CreateFunctionImpl rowMajor s'
            (exampleDeclaration\<lparr>GetParameterTypes := [exampleDeclared\<lparr>layout := None\<rparr>]\<rparr>)
            exampleThrowingBody = Inr (callable, s')"
    by blast
  moreover from C5_CreateFunction_memoizes [where decl = exampleIntrinsic and X = rowMajor
      and s = exampleContext and fn = exampleBody] i
  have "CreateFunctionImpl rowMajor exampleContext exampleIntrinsic exampleBody =
     Inl (InputException invalidArgument, exampleContext)" by blast
  moreover have "\<exists>v\<in>set (GetParameterTypes exampleUntyped). GetBaseType v = Undefined"
    by (simp add: exampleUntyped_def GetBaseType_def)
  with C5_CreateFunction_memoizes [where decl = exampleUntyped and X = rowMajor
      and s = exampleContext] nu d
  have "CreateFunctionImpl rowMajor exampleContext exampleUntyped exampleBody =
       Inl (LogicException illegalState, exampleContext)" by blast
  ultimately show ?thesis using r by blast
qed

text \<open>
  The first \<open>CreateFunction\<close> for a declaration need not cache anything: when its body throws,
  the call fails, nothing is cached, and the next \<open>CreateFunction\<close> for the same declaration
  invokes its body (whose store is emitted).
\<close>

theorem C5_CreateFunction_memoizes_counterexample:
  "\<not> IsIntrinsic rowMajor exampleDeclaration
   \<and> CreateFunctionImpl rowMajor exampleContext exampleDeclaration exampleThrowingBody =
       Inl (LogicException notImplemented,
            exampleContext\<lparr>emitted :=
              [BeginFunction ''g'' VarVoid [Int32Pointer], SetAttributeForArguments]\<rparr>)
   \<and> CreateFunctionImpl rowMajor
        (exampleContext\<lparr>emitted :=
           [BeginFunction ''g'' VarVoid [Int32Pointer], SetAttributeForArguments]\<rparr>)
        exampleDeclaration exampleBody =
       Inr (DefinedFunction exampleDeclaration,
            exampleContext\<lparr>emitted :=
              [BeginFunction ''g'' VarVoid [Int32Pointer], SetAttributeForArguments,
               BeginFunction ''g'' VarVoid [Int32Pointer], SetAttributeForArguments,
               Store (Argument 0) (LiteralInt 1), EndFunction None],
              definedFunctions :=
                (definedFunctions exampleContext)
                  (declarationKey exampleDeclaration \<mapsto>
                     DefinedFunction exampleDeclaration)\<rparr>)"
  by (simp add: IsIntrinsic_def GetIntrinsics_def intrinsics_def rowMajor_def
      exampleIntrinsicDeclaration_def declarationKey_def exampleDeclaration_def
      exampleIntrinsic_def exampleUnary_def CreateFunctionImpl_def CreateFunction_scope_def
      CreateFunction_end_def exampleBody_def exampleThrowingBody_def Let_def
      ValueTypeToVariableType_def GetBaseType_def exampleContext_def FunctionScope_enter_def
      FunctionScope_exit_def)

text \<open>
  C6. A global is registered under its scope-qualified name, \<open>module_name\<close> at module scope
  and \<open>module_function_name\<close> at function scope. The first \<open>GlobalAllocate\<close> (with data or
  with a type) under a qualified name that is not registered yet registers it; any later
  \<open>GlobalAllocate\<close> (of either kind) that produces the same qualified name fails with
  \<open>invalidArgument\<close> and leaves the context, and so the first registration, as it was.
  Registering the same unqualified name from within two functions of different names
  gives two distinct qualified names and two distinct globals.
\<close>

theorem C6_global_name_collision:
  "GetScopeAdjustedName s Global name = Inr (moduleName s @ ''_'' @ name)
   \<and> (functionStack s = f # fs \<longrightarrow>
        GetScopeAdjustedName s Function name = Inr (moduleName s @ ''_'' @ f @ ''_'' @ name))
   \<and> (GetScopeAdjustedName s scope name = Inr q \<and> globals s q = None \<longrightarrow>
        (\<exists>v s'. GlobalAllocateImpl_data X s scope name dat l = Inr (v, s')
           \<and> globals s' = (globals s)(q \<mapsto> (PointerOffset (GlobalVariable q) (LiteralInt 0), l))
           \<and> (\<forall>scope2 name2 dat2 type2 l2.
                 GetScopeAdjustedName s' scope2 name2 = Inr q \<longrightarrow>
                   GlobalAllocateImpl_data X s' scope2 name2 dat2 l2 =
                     Inl (InputException invalidArgument, s')
                   \<and> GlobalAllocateImpl_type X s' scope2 name2 type2 l2 =
                     Inl (InputException invalidArgument, s'))))
   \<and> (GetScopeAdjustedName s scope name = Inr q \<and> globals s q = None \<and> type \<noteq> Undefined \<longrightarrow>
        (\<exists>v s'. GlobalAllocateImpl_type X s scope name type l = Inr (v, s')
           \<and> globals s' = (globals s)(q \<mapsto> (PointerOffset (GlobalVariable q) (LiteralInt 0), l))
           \<and> (\<forall>scope2 name2 dat2 type2 l2.
                 GetScopeAdjustedName s' scope2 name2 = Inr q \<longrightarrow>
                   GlobalAllocateImpl_data X s' scope2 name2 dat2 l2 =
                     Inl (InputException invalidArgument, s')
                   \<and> GlobalAllocateImpl_type X s' scope2 name2 type2 l2 =
                     Inl (InputException invalidArgument, s'))))
   \<and> (f1 \<noteq> f2 \<and> functionStack s = f1 # fs \<and> globals s (moduleName s @ ''_'' @ f1 @ ''_'' @ name) = None
        \<and> globals s (moduleName s @ ''_'' @ f2 @ ''_'' @ name) = None \<longrightarrow>
        (\<exists>v1 s1 v2 s2 q1 q2.
           GlobalAllocateImpl_data X s Function name dat l = Inr (v1, s1)
           \<and> GlobalAllocateImpl_data X (s1\<lparr>functionStack := f2 # fs2\<rparr>) Function name dat2 l2 =
               Inr (v2, s2)
           \<and> q1 \<noteq> q2
           \<and> underlyingData v1 = Emittable (PointerOffset (GlobalVariable q1) (LiteralInt 0))
           \<and> underlyingData v2 = Emittable (PointerOffset (GlobalVariable q2) (LiteralInt 0))
           \<and> globals s2 q1 = Some (PointerOffset (GlobalVariable q1) (LiteralInt 0), l)
           \<and> globals s2 q2 = Some (PointerOffset (GlobalVariable q2) (LiteralInt 0), l2)))"
proof (intro conjI impI)
  show "GetScopeAdjustedName s Global name = Inr (moduleName s @ ''_'' @ name)"
    by (simp add: GetScopeAdjustedName_def GetGlobalScopedName_def)
next
  assume "functionStack s = f # fs"
  then show "GetScopeAdjustedName s Function name =
      Inr (moduleName s @ ''_'' @ f @ ''_'' @ name)"
    by (simp add: GetScopeAdjustedName_def GetCurrentFunctionScopedName_def
        GetGlobalScopedName_def)
next
  assume a: "GetScopeAdjustedName s scope name = Inr q \<and> globals s q = None"
  define e :: "'a LLVMValue" where "e = PointerOffset (GlobalVariable q) (LiteralInt 0)"
  define s' where "s' = s\<lparr>emitted := emitted s @
      [GlobalArrayData q (if fst dat = Boolean then Char8 else fst dat) (snd dat)],
      globals := (globals s)(q \<mapsto> (e, l))\<rparr>"
  have r: "GlobalAllocateImpl_data X s scope name dat l = Inr (EmittableValue X e l, s')"
    using a by (simp add: GlobalAllocateImpl_data_def Let_def s'_def e_def)
  have g: "globals s' = (globals s)(q \<mapsto> (e, l))" by (simp add: s'_def)
  have n: "\<And>scope2 name2. GetScopeAdjustedName s' scope2 name2 = GetScopeAdjustedName s scope2 name2"
    by (rule GetScopeAdjustedName_state) (simp_all add: s'_def)
  have "globals s' q \<noteq> None" by (simp add: g)
  with r g show "\<exists>v s'. GlobalAllocateImpl_data X s scope name dat l = Inr (v, s')
           \<and> globals s' = (globals s)(q \<mapsto> (PointerOffset (GlobalVariable q) (LiteralInt 0), l))
           \<and> (\<forall>scope2 name2 dat2 type2 l2.
                 GetScopeAdjustedName s' scope2 name2 = Inr q \<longrightarrow>
                   GlobalAllocateImpl_data X s' scope2 name2 dat2 l2 =
                     Inl (InputException invalidArgument, s')
                   \<and> GlobalAllocateImpl_type X s' scope2 name2 type2 l2 =
                     Inl (InputException invalidArgument, s'))"
    unfolding e_def by (auto intro!: exI GlobalAllocate_collision)
next
  assume a: "GetScopeAdjustedName s scope name = Inr q \<and> globals s q = None \<and> type \<noteq> Undefined"
  define e :: "'a LLVMValue" where "e = PointerOffset (GlobalVariable q) (LiteralInt 0)"
  define s' where "s' = s\<lparr>emitted := emitted s @ [GlobalArrayType q type (GetMemorySize X l)],
      globals := (globals s)(q \<mapsto> (e, l))\<rparr>"
  have r: "GlobalAllocateImpl_type X s scope name type l = Inr (EmittableValue X e l, s')"
    using a by (simp add: GlobalAllocateImpl_type_def ValueTypeToLLVMType_def Let_def s'_def e_def)
  have g: "globals s' = (globals s)(q \<mapsto> (e, l))" by (simp add: s'_def)
  have "globals s' q \<noteq> None" by (simp add: g)
  with r g show "\<exists>v s'. GlobalAllocateImpl_type X s scope name type l = Inr (v, s')
           \<and> globals s' = (globals s)(q \<mapsto> (PointerOffset (GlobalVariable q) (LiteralInt 0), l))
           \<and> (\<forall>scope2 name2 dat2 type2 l2.
                 GetScopeAdjustedName s' scope2 name2 = Inr q \<longrightarrow>
                   GlobalAllocateImpl_data X s' scope2 name2 dat2 l2 =
                     Inl (InputException invalidArgument, s')
                   \<and> GlobalAllocateImpl_type X s' scope2 name2 type2 l2 =
                     Inl (InputException invalidArgument, s'))"
    unfolding e_def by (auto intro!: exI GlobalAllocate_collision)
next
  assume a: "f1 \<noteq> f2 \<and> functionStack s = f1 # fs
      \<and> globals s (moduleName s @ ''_'' @ f1 @ ''_'' @ name) = None
      \<and> globals s (moduleName s @ ''_'' @ f2 @ ''_'' @ name) = None"
  define q1 where "q1 = moduleName s @ ''_'' @ f1 @ ''_'' @ name"
  define q2 where "q2 = moduleName s @ ''_'' @ f2 @ ''_'' @ name"
  have ne: "q1 \<noteq> q2" using a by (simp add: q1_def q2_def)
  show "\<exists>v1 s1 v2 s2 q1 q2.
           GlobalAllocateImpl_data X s Function name dat l = Inr (v1, s1)
           \<and> GlobalAllocateImpl_data X (s1\<lparr>functionStack := f2 # fs2\<rparr>) Function name dat2 l2 =
               Inr (v2, s2)
           \<and> q1 \<noteq> q2
           \<and> underlyingData v1 = Emittable (PointerOffset (GlobalVariable q1) (LiteralInt 0))
           \<and> underlyingData v2 = Emittable (PointerOffset (GlobalVariable q2) (LiteralInt 0))
           \<and> globals s2 q1 = Some (PointerOffset (GlobalVariable q1) (LiteralInt 0), l)
           \<and> globals s2 q2 = Some (PointerOffset (GlobalVariable q2) (LiteralInt 0), l2)"
    using a ne
    by (auto simp: GlobalAllocateImpl_data_def GetScopeAdjustedName_def
        GetCurrentFunctionScopedName_def GetGlobalScopedName_def Let_def EmittableValue_def
        q1_def q2_def)
qed


theorem C6_global_name_collision_witness:
  "GetScopeAdjustedName exampleContext Function ''w'' = Inr ''m_f_w''
   \<and> globals exampleContext ''m_f_w'' = None
   \<and> (\<exists>v s'. GlobalAllocateImpl_data rowMajor exampleContext Function ''w'' (Int32, [7]) [1] =
          Inr (v, s')
        \<and> globals s' ''m_f_w'' = Some (PointerOffset (GlobalVariable ''m_f_w'') (LiteralInt 0), [1])
        \<and> GlobalAllocateImpl_data rowMajor s' Function ''w'' (Int32, [8]) [1] =
            Inl (InputException invalidArgument, s')
        \<and> GlobalAllocateImpl_type rowMajor s' Function ''w'' Int32 [1] =
            Inl (InputException invalidArgument, s'))"
proof -
  note inst = C6_global_name_collision [of exampleContext "''w''" "''f''" "[]" Function "''m_f_w''"
      rowMajor "(Int32, [7])" "[1]" Int32 "''f''" "''g''" "[]" "(Int32, [7])" "[1]"]
  have n: "GetScopeAdjustedName exampleContext Function ''w'' = Inr ''m_f_w''"
    using inst by (simp add: exampleContext_def)
  have g: "globals exampleContext ''m_f_w'' = None" by (simp add: exampleContext_def)
  from inst n g obtain v s' where
    r: "GlobalAllocateImpl_data rowMajor exampleContext Function ''w'' (Int32, [7]) [1] = Inr (v, s')"
    and g': "globals s' = (globals exampleContext)(''m_f_w'' \<mapsto>
        (PointerOffset (GlobalVariable ''m_f_w'') (LiteralInt 0), [1]))"
    and c: "\<forall>scope2 name2 dat2 type2 l2.
                 GetScopeAdjustedName s' scope2 name2 = Inr ''m_f_w'' \<longrightarrow>
                   GlobalAllocateImpl_data rowMajor s' scope2 name2 dat2 l2 =
                     Inl (InputException invalidArgument, s')
                   \<and> GlobalAllocateImpl_type rowMajor s' scope2 name2 type2 l2 =
                     Inl (InputException invalidArgument, s')"
    by blast
  have "moduleName s' = ''m'' \<and> functionStack s' = [''f'']"
    using r by (auto simp: GlobalAllocateImpl_data_def GetScopeAdjustedName_def
        GetCurrentFunctionScopedName_def GetGlobalScopedName_def Let_def exampleContext_def)
  then have n': "GetScopeAdjustedName s' Function ''w'' = Inr ''m_f_w''"
    by (simp add: GetScopeAdjustedName_def GetCurrentFunctionScopedName_def
        GetGlobalScopedName_def)
  from c n' have "GlobalAllocateImpl_data rowMajor s' Function ''w'' (Int32, [8]) [1] =
            Inl (InputException invalidArgument, s')
        \<and> GlobalAllocateImpl_type rowMajor s' Function ''w'' Int32 [1] =
            Inl (InputException invalidArgument, s')" by blast
  with r g' n g show ?thesis by auto
qed













lemma Reset_simps [simp]:
  "underlyingData (Reset v) = UndefinedData"
  "valueType (Reset v) = valueType v"
  "layout (Reset v) = layout v"
  "IsDefined (Reset v) = IsDefined v"
  by (simp_all add: Reset_def IsDefined_def GetBaseType_def)






























text \<open>
  C10. Declarations are compared by their key (name, parameter TypeDescriptions, return
  TypeDescription). \<open>IsFunctionDefined\<close> is true for every declaration equal to a built-in
  intrinsic declaration, in every state, although \<open>CreateFunction\<close> refuses every such
  declaration, whatever the body; for every other declaration it is true iff the
  declaration is in the defined-function cache.
\<close>

theorem C10_IsFunctionDefined:
  "((\<exists>i\<in>set (GetIntrinsics X). declarationKey i = declarationKey decl) \<longrightarrow>
      IsFunctionDefinedImpl X s decl
      \<and> (\<forall>fn. CreateFunctionImpl X s decl fn = Inl (InputException invalidArgument, s)))
   \<and> ((\<forall>i\<in>set (GetIntrinsics X). declarationKey i \<noteq> declarationKey decl) \<longrightarrow>
        IsFunctionDefinedImpl X s decl = (declarationKey decl \<in> dom (definedFunctions s)))"
proof (intro conjI impI)
  assume "\<exists>i\<in>set (GetIntrinsics X). declarationKey i = declarationKey decl"
  then have "declarationKey decl \<in> declarationKey ` set (GetIntrinsics X)" by (metis imageI)
  then have i: "IsIntrinsic X decl" by (simp add: IsIntrinsic_def)
  show "IsFunctionDefinedImpl X s decl" using i by (simp add: IsFunctionDefinedImpl_def)
  show "\<forall>fn. CreateFunctionImpl X s decl fn = Inl (InputException invalidArgument, s)"
    using i by (simp add: CreateFunctionImpl_intrinsic)
next
  assume "\<forall>i\<in>set (GetIntrinsics X). declarationKey i \<noteq> declarationKey decl"
  then have "\<not> IsIntrinsic X decl" by (auto simp: IsIntrinsic_def)
  then show "IsFunctionDefinedImpl X s decl = (declarationKey decl \<in> dom (definedFunctions s))"
    by (auto simp: IsFunctionDefinedImpl_def)
qed

theorem C10_IsFunctionDefined_witness:
  "IsFunctionDefinedImpl rowMajor exampleContext exampleIntrinsic
   \<and> IsFunctionDefinedImpl rowMajor exampleContext
        (exampleIntrinsic\<lparr>GetParameterTypes :=
           map (\<lambda>v. v\<lparr>layout := Some [4]\<rparr>) (GetParameterTypes exampleIntrinsic)\<rparr>)
   \<and> CreateFunctionImpl rowMajor exampleContext exampleIntrinsic exampleBody =
       Inl (InputException invalidArgument, exampleContext)
   \<and> \<not> IsFunctionDefinedImpl rowMajor exampleContext exampleDeclaration
   \<and> IsFunctionDefinedImpl rowMajor
        (exampleContext\<lparr>definedFunctions :=
           [declarationKey exampleDeclaration \<mapsto> DefinedFunction exampleDeclaration]\<rparr>)
        exampleDeclaration"
proof -
  let ?relaid = "exampleIntrinsic\<lparr>GetParameterTypes :=
           map (\<lambda>v. v\<lparr>layout := Some [4]\<rparr>) (GetParameterTypes exampleIntrinsic)\<rparr>"
  have p: "exampleIntrinsic \<in> set (GetIntrinsics rowMajor)"
    by (simp add: GetIntrinsics_def intrinsics_def rowMajor_def exampleIntrinsicDeclaration_def)
  have k: "declarationKey ?relaid = declarationKey exampleIntrinsic"
    by (simp add: declarationKey_def exampleIntrinsic_def)
  have i: "\<exists>i\<in>set (GetIntrinsics rowMajor). declarationKey i = declarationKey exampleIntrinsic"
    "\<exists>i\<in>set (GetIntrinsics rowMajor). declarationKey i = declarationKey ?relaid"
    using p k by (metis, metis)
  have n: "\<forall>i\<in>set (GetIntrinsics rowMajor). declarationKey i \<noteq> declarationKey exampleDeclaration"
    by (simp add: GetIntrinsics_def intrinsics_def rowMajor_def exampleIntrinsicDeclaration_def
        declarationKey_def exampleDeclaration_def exampleIntrinsic_def exampleUnary_def)
  from C10_IsFunctionDefined [of rowMajor exampleIntrinsic exampleContext] i(1)
  have a: "IsFunctionDefinedImpl rowMajor exampleContext exampleIntrinsic
      \<and> CreateFunctionImpl rowMajor exampleContext exampleIntrinsic exampleBody =
       Inl (InputException invalidArgument, exampleContext)" by blast
  from C10_IsFunctionDefined [of rowMajor ?relaid exampleContext] i(2)
  have a': "IsFunctionDefinedImpl rowMajor exampleContext ?relaid" by blast
  from C10_IsFunctionDefined [of rowMajor exampleDeclaration exampleContext] n
  have b: "\<not> IsFunctionDefinedImpl rowMajor exampleContext exampleDeclaration"
    by (simp add: exampleContext_def)
  from C10_IsFunctionDefined [of rowMajor exampleDeclaration
      "exampleContext\<lparr>definedFunctions :=
           [declarationKey exampleDeclaration \<mapsto> DefinedFunction exampleDeclaration]\<rparr>"] n
  have c: "IsFunctionDefinedImpl rowMajor
        (exampleContext\<lparr>definedFunctions :=
           [declarationKey exampleDeclaration \<mapsto> DefinedFunction exampleDeclaration]\<rparr>)
        exampleDeclaration"
    by simp
  from a a' b c show ?thesis by blast
qed

end
